theory Spec2Isabelle
  imports Main "HOL-Library.Word" "HOL-Library.AList"
begin

unbundle bit_operations_syntax

section \<open>The NomsBlockStore facade of the chunk store (package nbs, store.go)\<close>

text \<open>
  The development embeds the facade \<^verbatim>\<open>NomsBlockStore\<close> of the source file
  \<^verbatim>\<open>src/unnamed/part_001\<close> (package \<^verbatim>\<open>nbs\<close>): \<^verbatim>\<open>Put\<close>, \<^verbatim>\<open>addChunk\<close>, \<^verbatim>\<open>Get\<close>,
  \<^verbatim>\<open>Rebase\<close>, \<^verbatim>\<open>Root\<close>, \<^verbatim>\<open>Commit\<close>, \<^verbatim>\<open>updateManifest\<close> and \<^verbatim>\<open>GetChunkLocations\<close>.

  The facade is sequential code between \<^verbatim>\<open>nbs.mu.Lock()\<close> and \<^verbatim>\<open>nbs.mu.Unlock()\<close>; the model
  is one thread, so the mutex \<^verbatim>\<open>mu\<close> does not appear. The latency samples written to
  \<^verbatim>\<open>nbs.stats\<close> and the \<^verbatim>\<open>ctx\<close> argument have no influence on any result and are left out.
  A Go call returning \<^verbatim>\<open>(v, err)\<close> is a pair \<open>(v, err)\<close> with \<open>err :: error option\<close>,
  \<open>None\<close> being \<^verbatim>\<open>nil\<close>; both components are assigned, as in Go.
\<close>

subsection \<open>Hashes, byte slices, errors\<close>

text \<open>\<^verbatim>\<open>hash.Hash\<close> and \<^verbatim>\<open>addr\<close> are both \<^verbatim>\<open>[20]byte\<close>; \<^verbatim>\<open>addr(h)\<close> is a conversion
  without effect.\<close>

type_synonym hash = "160 word"
type_synonym addr = "160 word"
type_synonym bytes = "8 word list"

text \<open>A Go \<^verbatim>\<open>[]byte\<close>: \<open>None\<close> is the \<^verbatim>\<open>nil\<close> slice, \<open>Some []\<close> the empty slice that is
  not \<^verbatim>\<open>nil\<close>. \<^verbatim>\<open>Get\<close> tests \<^verbatim>\<open>data != nil\<close>, so the two are kept apart.\<close>

type_synonym gobytes = "bytes option"

definition len :: "gobytes \<Rightarrow> nat" where
  "len d = (case d of None \<Rightarrow> 0 | Some b \<Rightarrow> length b)"

definition bytes_of :: "gobytes \<Rightarrow> bytes" where
  "bytes_of d = (case d of None \<Rightarrow> [] | Some b \<Rightarrow> b)"

text \<open>The three sentinel errors of store.go (compared by identity in \<^verbatim>\<open>Commit\<close>), and
  \<open>errorsNew msg\<close> for a value made by \<^verbatim>\<open>errors.New(msg)\<close>, in the facade or in a
  collaborator.\<close>

datatype error =
    errLastRootMismatch
  | errOptimisticLockFailedRoot
  | errOptimisticLockFailedTables
  | errorsNew string

subsection \<open>Chunks\<close>

text \<open>Modelled from the spec: package \<^verbatim>\<open>chunks\<close> is not among the sources. The spec's data
  model: a chunk is an immutable (address, bytes) pair with address = H(bytes), H the fixed
  content hash; the empty chunk is the chunk of zero bytes. The content hash is the
  parameter \<open>H\<close>. \<^verbatim>\<open>NewChunkWithHash\<close> takes the address from the caller, as \<^verbatim>\<open>Get\<close> uses
  it.\<close>

record chunk =
  chunk_r :: hash
  chunk_data :: gobytes

definition NewChunk :: "(bytes \<Rightarrow> hash) \<Rightarrow> gobytes \<Rightarrow> chunk" where
  "NewChunk H d = \<lparr>chunk_r = H (bytes_of d), chunk_data = d\<rparr>"

definition NewChunkWithHash :: "hash \<Rightarrow> gobytes \<Rightarrow> chunk" where
  "NewChunkWithHash h d = \<lparr>chunk_r = h, chunk_data = d\<rparr>"

definition EmptyChunk :: "(bytes \<Rightarrow> hash) \<Rightarrow> chunk" where
  "EmptyChunk H = NewChunk H (Some [])"

definition Hash :: "chunk \<Rightarrow> hash" where
  "Hash c = chunk_r c"

definition Data :: "chunk \<Rightarrow> gobytes" where
  "Data c = chunk_data c"

subsection \<open>Memtable\<close>

text \<open>Modelled from the spec: type \<^verbatim>\<open>memTable\<close> is not among the sources. Spec 4.1: a bounded
  write buffer sized by byte budget; \<^verbatim>\<open>addChunk(a, bytes)\<close> returns true iff the chunk fit; it
  maintains a hash table for \<^verbatim>\<open>get(a)\<close> and preserves insertion order; \<^verbatim>\<open>count()\<close> returns the
  distinct chunk count. The hash table in insertion order is an association list with one
  entry per address (\<open>AList.update\<close> overwrites an address already there and appends a new
  one). \<^verbatim>\<open>count()\<close> is a \<^verbatim>\<open>uint32\<close> in \<^verbatim>\<open>NomsBlockStore.Count\<close>; \<^verbatim>\<open>get\<close> and \<^verbatim>\<open>count\<close>
  return an error value next to their result, for which the spec names no cause.\<close>

record memTable =
  maxData :: nat
  totalData :: nat
  chunks :: "(addr \<times> gobytes) list"

definition newMemTable :: "64 word \<Rightarrow> memTable" where
  "newMemTable sz = \<lparr>maxData = unat sz, totalData = 0, chunks = []\<rparr>"

definition mt_addChunk :: "memTable \<Rightarrow> addr \<Rightarrow> gobytes \<Rightarrow> bool \<times> memTable" where
  "mt_addChunk m h d =
     (if totalData m + len d \<le> maxData m
      then (True, m\<lparr>totalData := totalData m + len d,
                     chunks := AList.update h d (chunks m)\<rparr>)
      else (False, m))"

definition mt_get :: "memTable \<Rightarrow> addr \<Rightarrow> gobytes \<times> error option" where
  "mt_get m h = (case map_of (chunks m) h of None \<Rightarrow> (None, None) | Some d \<Rightarrow> (d, None))"

definition mt_has :: "memTable \<Rightarrow> addr \<Rightarrow> bool" where
  "mt_has m h = (map_of (chunks m) h \<noteq> None)"

definition distinctCount :: "memTable \<Rightarrow> nat" where
  "distinctCount m = length (remdups (map fst (chunks m)))"

definition mt_count :: "memTable \<Rightarrow> 32 word \<times> error option" where
  "mt_count m = (of_nat (distinctCount m), None)"

subsection \<open>Table files and chunk sources\<close>

text \<open>Modelled from the spec: the table readers are not among the sources; store.go reads
  their fields \<^verbatim>\<open>h\<close>, \<^verbatim>\<open>lengths\<close>, \<^verbatim>\<open>offsets\<close>, \<^verbatim>\<open>chunkCount\<close> and calls \<^verbatim>\<open>findOffsets\<close>,
  \<^verbatim>\<open>index\<close> and \<^verbatim>\<open>lookupOrdinal\<close>. Spec 3 and 6: a table file has an index of
  (prefix, ordinal) entries sorted by prefix, a lengths vector and a suffix vector in
  ordinal order (the suffix being the 12 bytes of an address after its 8-byte prefix), and
  the chunk records in insertion order; offsets are the prefix sums of the lengths.
  Reading a chunk record yields its bytes or, for a corrupted or unreadable record, an
  error (spec 7, 8).\<close>

definition Prefix :: "addr \<Rightarrow> 64 word" where
  "Prefix a = ucast (drop_bit 96 a)"

definition Suffix :: "addr \<Rightarrow> 96 word" where
  "Suffix a = ucast a"

record tableIndex =
  chunkCount :: "32 word"
  prefixes :: "64 word list"
  ordinals :: "32 word list"
  lengths :: "32 word list"
  offsets :: "64 word list"
  suffixes :: "96 word list"

record tableReader =
  tr_h :: addr
  tr_index :: tableIndex
  tr_records :: "(error + bytes) list"

definition nth_opt :: "'a list \<Rightarrow> nat \<Rightarrow> 'a option" where
  "nth_opt xs i = (if i < length xs then Some (xs ! i) else None)"

text \<open>Modelled from the spec: \<^verbatim>\<open>lookupOrdinal\<close> searches the prefix index and lets the suffix
  decide between equal prefixes (spec 4.4); store.go takes a result below \<^verbatim>\<open>chunkCount\<close>
  as found, so an absent address gives \<^verbatim>\<open>chunkCount\<close>.\<close>

definition lookupOrdinal :: "tableIndex \<Rightarrow> addr \<Rightarrow> 32 word" where
  "lookupOrdinal ti a =
     (case find (\<lambda>(p, ord). p = Prefix a \<and> nth_opt (suffixes ti) (unat ord) = Some (Suffix a))
             (zip (prefixes ti) (ordinals ti)) of
        None \<Rightarrow> chunkCount ti
      | Some (p, ord) \<Rightarrow> ord)"

definition tr_has :: "tableReader \<Rightarrow> addr \<Rightarrow> bool" where
  "tr_has tr a = (lookupOrdinal (tr_index tr) a < chunkCount (tr_index tr))"

text \<open>Modelled from the spec: a table reader's \<^verbatim>\<open>get\<close>. An address that is not in the index
  is absent, with no error (spec 4.7: \<^verbatim>\<open>Get\<close> never fails for missing data); an address in
  the index is read from its chunk record.\<close>

definition tr_get :: "tableReader \<Rightarrow> addr \<Rightarrow> gobytes \<times> error option" where
  "tr_get tr a =
     (if tr_has tr a
      then (case nth_opt (tr_records tr) (unat (lookupOrdinal (tr_index tr) a)) of
              None \<Rightarrow> (None, Some (errorsNew ''chunk record missing''))
            | Some (Inl e) \<Rightarrow> (None, Some e)
            | Some (Inr b) \<Rightarrow> (Some b, None))
      else (None, None))"

text \<open>The dynamic types of a \<^verbatim>\<open>chunkSource\<close> that \<^verbatim>\<open>GetChunkLocations\<close> tells apart:
  \<^verbatim>\<open>*mmapTableReader\<close>, \<^verbatim>\<open>*chunkSourceAdapter\<close>, and anything else. The third is the novel
  in-memory table that \<^verbatim>\<open>Prepend\<close> makes of a sealed memtable (spec 4.2).\<close>

datatype chunkSource =
    MmapTableReader tableReader
  | ChunkSourceAdapter tableReader
  | NovelMemTable memTable

text \<open>Modelled from the spec: \<^verbatim>\<open>get\<close> and \<^verbatim>\<open>has\<close> of a chunk source are those of the table
  reader or of the memtable behind it.\<close>

definition cs_get :: "chunkSource \<Rightarrow> addr \<Rightarrow> gobytes \<times> error option" where
  "cs_get cs a =
     (case cs of
        MmapTableReader tr \<Rightarrow> tr_get tr a
      | ChunkSourceAdapter tr \<Rightarrow> tr_get tr a
      | NovelMemTable m \<Rightarrow> mt_get m a)"

definition cs_has :: "chunkSource \<Rightarrow> addr \<Rightarrow> bool" where
  "cs_has cs a =
     (case cs of
        MmapTableReader tr \<Rightarrow> tr_has tr a
      | ChunkSourceAdapter tr \<Rightarrow> tr_has tr a
      | NovelMemTable m \<Rightarrow> mt_has m a)"

subsection \<open>Table set\<close>

text \<open>Modelled from the spec: type \<^verbatim>\<open>tableSet\<close> is not among the sources; store.go reads its
  fields \<^verbatim>\<open>novel\<close> and \<^verbatim>\<open>upstream\<close>. Spec 3 and 4.2: the table set is novel ++ upstream,
  newest first; \<^verbatim>\<open>get\<close> probes the layers in that order and stops at the first hit;
  \<^verbatim>\<open>Prepend\<close> is a pure function returning a new stack with the sealed memtable as a novel
  in-memory table; \<^verbatim>\<open>Novel()\<close> is the number of novel tables.\<close>

record tableSet =
  ts_novel :: "chunkSource list"
  ts_upstream :: "chunkSource list"

fun css_get :: "chunkSource list \<Rightarrow> addr \<Rightarrow> gobytes \<times> error option" where
  "css_get [] a = (None, None)"
| "css_get (cs # css) a =
     (case cs_get cs a of
        (d, Some e) \<Rightarrow> (None, Some e)
      | (Some b, None) \<Rightarrow> (Some b, None)
      | (None, None) \<Rightarrow> css_get css a)"

definition ts_get :: "tableSet \<Rightarrow> addr \<Rightarrow> gobytes \<times> error option" where
  "ts_get ts a =
     (case css_get (ts_novel ts) a of
        (d, Some e) \<Rightarrow> (None, Some e)
      | (Some b, None) \<Rightarrow> (Some b, None)
      | (None, None) \<Rightarrow> css_get (ts_upstream ts) a)"

definition ts_Prepend :: "tableSet \<Rightarrow> memTable \<Rightarrow> tableSet" where
  "ts_Prepend ts m = ts\<lparr>ts_novel := NovelMemTable m # ts_novel ts\<rparr>"

definition ts_Novel :: "tableSet \<Rightarrow> nat" where
  "ts_Novel ts = length (ts_novel ts)"

subsection \<open>Manifest contents and the store\<close>

text \<open>\<^verbatim>\<open>tableSpec{a, count}\<close> and \<^verbatim>\<open>manifestContents{vers, root, lock, specs}\<close>, as store.go
  builds them.\<close>

type_synonym tableSpec = "addr \<times> 32 word"

record manifestContents =
  vers :: string
  lock :: addr
  root :: hash
  specs :: "tableSpec list"

text \<open>The mutable fields of \<^verbatim>\<open>NomsBlockStore\<close>; \<open>mt = None\<close> is the \<^verbatim>\<open>nil\<close> memtable. The
  fields \<^verbatim>\<open>mm\<close>, \<^verbatim>\<open>p\<close> and \<^verbatim>\<open>c\<close> are the collaborators below.\<close>

record NomsBlockStore =
  mt :: "memTable option"
  tables :: tableSet
  upstream :: manifestContents
  mtSize :: "64 word"
  putCount :: "64 word"

subsection \<open>Put, addChunk, Get\<close>

text \<open>The first step of \<^verbatim>\<open>addChunk\<close>: \<^verbatim>\<open>if nbs.mt == nil { nbs.mt = newMemTable(nbs.mtSize) }\<close>.\<close>

definition currentMemTable :: "NomsBlockStore \<Rightarrow> memTable" where
  "currentMemTable s = (case mt s of None \<Rightarrow> newMemTable (mtSize s) | Some m \<Rightarrow> m)"

definition addChunk :: "NomsBlockStore \<Rightarrow> addr \<Rightarrow> gobytes \<Rightarrow> bool \<times> NomsBlockStore" where
  "addChunk s h d =
     (let (ok, m1) = mt_addChunk (currentMemTable s) h d
      in if \<not> ok
         then (let (ok2, m2) = mt_addChunk (newMemTable (mtSize s)) h d
               in (ok2, s\<lparr>tables := ts_Prepend (tables s) m1, mt := Some m2\<rparr>))
         else (True, s\<lparr>mt := Some m1\<rparr>))"

definition Put :: "NomsBlockStore \<Rightarrow> chunk \<Rightarrow> error option \<times> NomsBlockStore" where
  "Put s c =
     (let a = Hash c;
          (success, s1) = addChunk s a (Data c)
      in if \<not> success
         then (Some (errorsNew ''failed to add chunk''), s1)
         else (None, s1\<lparr>putCount := putCount s1 + 1\<rparr>))"

definition Get :: "(bytes \<Rightarrow> hash) \<Rightarrow> NomsBlockStore \<Rightarrow> hash \<Rightarrow> chunk \<times> error option" where
  "Get H s h =
     (let a = h;
          (d, err) = (case mt s of None \<Rightarrow> (None, None) | Some m \<Rightarrow> mt_get m a);
          ts = tables s
      in case err of
           Some e \<Rightarrow> (EmptyChunk H, Some e)
         | None \<Rightarrow>
             (case d of
                Some b \<Rightarrow> (NewChunkWithHash h (Some b), None)
              | None \<Rightarrow>
                  (case ts_get ts a of
                     (d2, Some e) \<Rightarrow> (EmptyChunk H, Some e)
                   | (Some b, None) \<Rightarrow> (NewChunkWithHash h (Some b), None)
                   | (None, None) \<Rightarrow> (EmptyChunk H, None))))"

subsection \<open>The collaborators behind the facade\<close>

text \<open>The manifest manager \<^verbatim>\<open>nbs.mm\<close>, the conjoiner \<^verbatim>\<open>nbs.c\<close>, the methods of the table
  set that go through the persister \<^verbatim>\<open>nbs.p\<close> (\<^verbatim>\<open>Rebase\<close>, \<^verbatim>\<open>Flatten\<close>, \<^verbatim>\<open>ToSpecs\<close>) and
  \<^verbatim>\<open>generateLockHash\<close> are not among the sources. They are parameters of the facade: a
  record of operations over a state \<open>'w\<close> that stands for everything outside the store
  (the manifest in its backing storage, the manifest cache and its locks, the table files).
  An operation that can do I/O takes that state and returns it; \<^verbatim>\<open>updateWillFail\<close> and
  \<^verbatim>\<open>ConjoinRequired\<close> only read. \<^verbatim>\<open>LockForUpdate\<close> returns with the lock held; the wait
  for another writer of the same process is not part of the model. What is proved for
  every such record holds for whatever these collaborators do, failures included.\<close>

record 'w collaborators =
  mm_Fetch :: "'w \<Rightarrow> (bool \<times> manifestContents \<times> error option) \<times> 'w"
  mm_Update :: "addr \<Rightarrow> manifestContents \<Rightarrow> 'w \<Rightarrow> (manifestContents \<times> error option) \<times> 'w"
  mm_updateWillFail :: "addr \<Rightarrow> 'w \<Rightarrow> manifestContents \<times> bool"
  mm_LockForUpdate :: "'w \<Rightarrow> 'w"
  mm_UnlockForUpdate :: "'w \<Rightarrow> error option \<times> 'w"
  ts_Rebase :: "tableSet \<Rightarrow> tableSpec list \<Rightarrow> 'w \<Rightarrow> (tableSet \<times> error option) \<times> 'w"
  ts_Flatten :: "tableSet \<Rightarrow> 'w \<Rightarrow> (tableSet \<times> error option) \<times> 'w"
  ts_ToSpecs :: "tableSet \<Rightarrow> 'w \<Rightarrow> (tableSpec list \<times> error option) \<times> 'w"
  c_ConjoinRequired :: "tableSet \<Rightarrow> bool"
  c_Conjoin :: "manifestContents \<Rightarrow> 'w \<Rightarrow> (manifestContents \<times> error option) \<times> 'w"
  generateLockHash :: "hash \<Rightarrow> tableSpec list \<Rightarrow> addr"

subsection \<open>Rebase and Root\<close>

definition Rebase :: "'w collaborators \<Rightarrow> 'w \<Rightarrow> NomsBlockStore \<Rightarrow> error option \<times> 'w \<times> NomsBlockStore" where
  "Rebase D w s =
     (case mm_Fetch D w of
        ((exists, contents, err), w1) \<Rightarrow>
          (case err of
             Some e \<Rightarrow> (Some e, w1, s)
           | None \<Rightarrow>
               if exists
               then (case ts_Rebase D (tables s) (specs contents) w1 of
                       ((ts, err2), w2) \<Rightarrow> (err2, w2, s\<lparr>tables := ts, upstream := contents\<rparr>))
               else (None, w1, s)))"

definition Root :: "NomsBlockStore \<Rightarrow> hash \<times> error option" where
  "Root s = (root (upstream s), None)"

subsection \<open>Commit and updateManifest\<close>

definition preflushChunkCount :: "32 word" where
  "preflushChunkCount = 8"

definition anyPossiblyNovelChunks :: "NomsBlockStore \<Rightarrow> bool" where
  "anyPossiblyNovelChunks s = (mt s \<noteq> None \<or> ts_Novel (tables s) > 0)"

text \<open>The closure of \<^verbatim>\<open>Commit\<close> that runs before \<^verbatim>\<open>nbs.mm.LockForUpdate()\<close> (lines 737-761):
  a memtable of more than \<^verbatim>\<open>preflushChunkCount\<close> chunks is persisted outside the commit
  lock.\<close>

definition Commit_preflush :: "NomsBlockStore \<Rightarrow> error option \<times> NomsBlockStore" where
  "Commit_preflush s =
     (case mt s of
        None \<Rightarrow> (None, s)
      | Some m \<Rightarrow>
          (case mt_count m of
             (cnt, Some e) \<Rightarrow> (Some e, s)
           | (cnt, None) \<Rightarrow>
               if cnt > preflushChunkCount
               then (None, s\<lparr>tables := ts_Prepend (tables s) m, mt := None\<rparr>)
               else (None, s)))"

text \<open>The closure \<^verbatim>\<open>handleOptimisticLockFailure\<close> of \<^verbatim>\<open>updateManifest\<close>. The argument
  \<^verbatim>\<open>last\<close> of the source is written \<open>last'\<close> here and below.\<close>

definition handleOptimisticLockFailure ::
  "'w collaborators \<Rightarrow> 'w \<Rightarrow> NomsBlockStore \<Rightarrow> hash \<Rightarrow> manifestContents
     \<Rightarrow> error option \<times> 'w \<times> NomsBlockStore" where
  "handleOptimisticLockFailure D w s last' up =
     (case ts_Rebase D (tables s) (specs up) w of
        ((ts, err), w1) \<Rightarrow>
          (let s1 = s\<lparr>tables := ts, upstream := up\<rparr>
           in case err of
                Some e \<Rightarrow> (Some e, w1, s1)
              | None \<Rightarrow>
                  if last' \<noteq> root up
                  then (Some errOptimisticLockFailedRoot, w1, s1)
                  else (Some errOptimisticLockFailedTables, w1, s1)))"

text \<open>The block of \<^verbatim>\<open>updateManifest\<close> that seals the memtable under the commit lock
  (lines 823-834).\<close>

definition updateManifest_flush :: "NomsBlockStore \<Rightarrow> error option \<times> NomsBlockStore" where
  "updateManifest_flush s =
     (case mt s of
        None \<Rightarrow> (None, s)
      | Some m \<Rightarrow>
          (case mt_count m of
             (cnt, Some e) \<Rightarrow> (Some e, s)
           | (cnt, None) \<Rightarrow>
               if cnt > 0
               then (None, s\<lparr>tables := ts_Prepend (tables s) m, mt := None\<rparr>)
               else (None, s)))"

text \<open>The manifest contents that \<^verbatim>\<open>updateManifest\<close> proposes (lines 859-864).\<close>

definition newContents ::
  "'w collaborators \<Rightarrow> NomsBlockStore \<Rightarrow> hash \<Rightarrow> tableSpec list \<Rightarrow> manifestContents" where
  "newContents D s current sp =
     \<lparr>vers = vers (upstream s), lock = generateLockHash D current sp, root = current,
      specs = sp\<rparr>"

text \<open>The rest of \<^verbatim>\<open>updateManifest\<close> after that block (lines 836-883): the conjoin, or
  the compare-and-set of the manifest and what follows it.\<close>

definition updateManifest_write ::
  "'w collaborators \<Rightarrow> 'w \<Rightarrow> NomsBlockStore \<Rightarrow> hash \<Rightarrow> hash
     \<Rightarrow> error option \<times> 'w \<times> NomsBlockStore" where
  "updateManifest_write D w s1 current last' =
     (if c_ConjoinRequired D (tables s1)
      then (case c_Conjoin D (upstream s1) w of
              ((up, err), w1) \<Rightarrow>
                (let s2 = s1\<lparr>upstream := up\<rparr>
                 in case err of
                      Some e \<Rightarrow> (Some e, w1, s2)
                    | None \<Rightarrow>
                        (case ts_Rebase D (tables s2) (specs (upstream s2)) w1 of
                           ((ts, err2), w2) \<Rightarrow>
                             (let s3 = s2\<lparr>tables := ts\<rparr>
                              in case err2 of
                                   Some e \<Rightarrow> (Some e, w2, s3)
                                 | None \<Rightarrow> (Some errOptimisticLockFailedTables, w2, s3)))))
      else (case ts_ToSpecs D (tables s1) w of
              ((sp, err), w1) \<Rightarrow>
                (case err of
                   Some e \<Rightarrow> (Some e, w1, s1)
                 | None \<Rightarrow>
                     (case mm_Update D (lock (upstream s1)) (newContents D s1 current sp) w1 of
                        ((up, err2), w2) \<Rightarrow>
                          (case err2 of
                             Some e \<Rightarrow> (Some e, w2, s1)
                           | None \<Rightarrow>
                               if lock (newContents D s1 current sp) \<noteq> lock up
                               then handleOptimisticLockFailure D w2 s1 last' up
                               else (case ts_Flatten D (tables s1) w2 of
                                       ((ts, err3), w3) \<Rightarrow>
                                         (None, w3,
                                          s1\<lparr>upstream := newContents D s1 current sp,
                                             tables := ts\<rparr>)))))))"

definition updateManifest ::
  "'w collaborators \<Rightarrow> 'w \<Rightarrow> NomsBlockStore \<Rightarrow> hash \<Rightarrow> hash
     \<Rightarrow> error option \<times> 'w \<times> NomsBlockStore" where
  "updateManifest D w s current last' =
     (if root (upstream s) \<noteq> last' then (Some errLastRootMismatch, w, s)
      else case mm_updateWillFail D (lock (upstream s)) w of
        (cached, doomed) \<Rightarrow>
          if doomed then handleOptimisticLockFailure D w s last' cached
          else case updateManifest_flush s of
            (Some e, s1) \<Rightarrow> (Some e, w, s1)
          | (None, s1) \<Rightarrow> updateManifest_write D w s1 current last')"

text \<open>The \<^verbatim>\<open>for\<close> loop of \<^verbatim>\<open>Commit\<close> (lines 776-787). It has no bound: it runs again for as
  long as \<^verbatim>\<open>updateManifest\<close> answers \<^verbatim>\<open>errOptimisticLockFailedTables\<close>. A run that never
  leaves the loop is the value \<open>None\<close>.\<close>

partial_function (option) Commit_loop ::
  "'w collaborators \<Rightarrow> 'w \<Rightarrow> NomsBlockStore \<Rightarrow> hash \<Rightarrow> hash
     \<Rightarrow> ((bool \<times> error option) \<times> 'w \<times> NomsBlockStore) option" where
  "Commit_loop D w s current last' =
     (case updateManifest D w s current last' of
        (err, w1, s1) \<Rightarrow>
          (case err of
             None \<Rightarrow> Some ((True, None), w1, s1)
           | Some e \<Rightarrow>
               if e = errOptimisticLockFailedRoot \<or> e = errLastRootMismatch
               then Some ((False, None), w1, s1)
               else if e \<noteq> errOptimisticLockFailedTables
               then Some ((False, Some e), w1, s1)
               else Commit_loop D w1 s1 current last'))"

text \<open>The deferred function of \<^verbatim>\<open>Commit\<close> (lines 768-774), run on whatever the loop returns:
  the update lock is released, and an error of the release becomes the error of \<^verbatim>\<open>Commit\<close>
  when there was none.\<close>

definition Commit_unlock ::
  "'w collaborators \<Rightarrow> (bool \<times> error option) \<times> 'w \<times> NomsBlockStore
     \<Rightarrow> (bool \<times> error option) \<times> 'w \<times> NomsBlockStore" where
  "Commit_unlock D res =
     (case res of
        ((success, err), w, s) \<Rightarrow>
          (case mm_UnlockForUpdate D w of
             (unlockErr, w1) \<Rightarrow> ((success, if err = None then unlockErr else err), w1, s)))"

definition Commit ::
  "'w collaborators \<Rightarrow> 'w \<Rightarrow> NomsBlockStore \<Rightarrow> hash \<Rightarrow> hash
     \<Rightarrow> ((bool \<times> error option) \<times> 'w \<times> NomsBlockStore) option" where
  "Commit D w s current last' =
     (if \<not> anyPossiblyNovelChunks s \<and> current = last'
      then (case Rebase D w s of
              (Some e, w1, s1) \<Rightarrow> Some ((False, Some e), w1, s1)
            | (None, w1, s1) \<Rightarrow> Some ((True, None), w1, s1))
      else case Commit_preflush s of
             (Some e, s1) \<Rightarrow> Some ((False, Some e), w, s1)
           | (None, s1) \<Rightarrow>
               map_option (Commit_unlock D)
                 (Commit_loop D (mm_LockForUpdate D w) s1 current last'))"

subsection \<open>GetChunkLocations\<close>

text \<open>\<^verbatim>\<open>toGetRecords\<close>: one record per member of the hash set, sorted by prefix. The
  \<^verbatim>\<open>hash.HashSet\<close> is the list of its members in the order in which \<^verbatim>\<open>range\<close> visits them;
  \<^verbatim>\<open>delete(hashes, h)\<close> is \<open>removeAll h\<close>.\<close>

record getRecord =
  gr_a :: addr
  gr_prefix :: "64 word"

definition toGetRecords :: "hash list \<Rightarrow> getRecord list" where
  "toGetRecords hashes =
     sort_key gr_prefix (map (\<lambda>h. \<lparr>gr_a = h, gr_prefix = Prefix h\<rparr>) hashes)"

record offsetRec =
  or_a :: addr
  or_ordinal :: "32 word"
  or_offset :: "64 word"

text \<open>Modelled from the spec: \<^verbatim>\<open>findOffsets\<close> of a table reader is not among the sources.
  Spec 4.4: for the requested addresses, sorted by prefix, the source searches its prefix
  index once per request and collects the ordinal and offset of every request it holds.\<close>

definition findOffsets :: "tableReader \<Rightarrow> getRecord list \<Rightarrow> offsetRec list" where
  "findOffsets tr reqs =
     concat (map (\<lambda>req.
        (let ord = lookupOrdinal (tr_index tr) (gr_a req)
         in if ord < chunkCount (tr_index tr)
            then (case nth_opt (offsets (tr_index tr)) (unat ord) of
                    None \<Rightarrow> []
                  | Some off \<Rightarrow> [\<lparr>or_a = gr_a req, or_ordinal = ord, or_offset = off\<rparr>])
            else [])) reqs)"

text \<open>Modelled from the spec: \<^verbatim>\<open>index()\<close> of a chunk source adapter returns the table index
  and an error value, for which the spec names no cause.\<close>

definition tr_indexOf :: "tableReader \<Rightarrow> tableIndex \<times> error option" where
  "tr_indexOf tr = (tr_index tr, None)"

record Range =
  Offset :: "64 word"
  Length :: "32 word"

type_synonym ranges = "hash \<rightharpoonup> (hash \<rightharpoonup> Range)"

text \<open>What the closure \<^verbatim>\<open>f\<close> of \<^verbatim>\<open>GetChunkLocations\<close> reads and writes: the get records
  \<^verbatim>\<open>gr\<close>, the caller's hash set \<^verbatim>\<open>hashes\<close> and the result map \<^verbatim>\<open>ranges\<close>, all three captured
  by reference.\<close>

record locState =
  ls_gr :: "getRecord list"
  ls_hashes :: "hash list"
  ls_ranges :: ranges

text \<open>A Go function either returns or panics: an index out of range and the \<^verbatim>\<open>default\<close>
  case of the type switch panic.\<close>

datatype 'a outcome = Panics | Returns 'a

text \<open>The inner loop of the \<^verbatim>\<open>*mmapTableReader\<close> case, over \<^verbatim>\<open>offsetRecSlice\<close>.\<close>

fun addOffsetRecs ::
  "tableReader \<Rightarrow> offsetRec list \<Rightarrow> (hash \<rightharpoonup> Range) \<times> hash list
     \<Rightarrow> ((hash \<rightharpoonup> Range) \<times> hash list) outcome" where
  "addOffsetRecs tr [] (y, hashes) = Returns (y, hashes)"
| "addOffsetRecs tr (rec # recs) (y, hashes) =
     (case nth_opt (lengths (tr_index tr)) (unat (or_ordinal rec)) of
        None \<Rightarrow> Panics
      | Some l \<Rightarrow>
          addOffsetRecs tr recs
            (y(or_a rec \<mapsto> \<lparr>Offset = or_offset rec, Length = l\<rparr>), removeAll (or_a rec) hashes))"

text \<open>The first loop of the \<^verbatim>\<open>*chunkSourceAdapter\<close> case, over the members of \<^verbatim>\<open>hashes\<close>; it
  collects \<^verbatim>\<open>foundHashes\<close> and leaves \<^verbatim>\<open>hashes\<close> alone.\<close>

fun lookupHashes ::
  "tableIndex \<Rightarrow> hash list \<Rightarrow> (hash \<rightharpoonup> Range) \<times> hash list
     \<Rightarrow> ((hash \<rightharpoonup> Range) \<times> hash list) outcome" where
  "lookupHashes ti [] (y, foundHashes) = Returns (y, foundHashes)"
| "lookupHashes ti (h # hs) (y, foundHashes) =
     (let ord = lookupOrdinal ti h
      in if ord < chunkCount ti
         then (case (nth_opt (offsets ti) (unat ord), nth_opt (lengths ti) (unat ord)) of
                 (Some off, Some l) \<Rightarrow>
                   lookupHashes ti hs (y(h \<mapsto> \<lparr>Offset = off, Length = l\<rparr>), foundHashes @ [h])
               | _ \<Rightarrow> Panics)
         else lookupHashes ti hs (y, foundHashes))"

text \<open>One round of the loop \<^verbatim>\<open>for _, cs := range css\<close>, and the loop. An error ends the loop
  and is returned with the state reached.\<close>

definition probeSource :: "chunkSource \<Rightarrow> locState \<Rightarrow> (error option \<times> locState) outcome" where
  "probeSource cs st =
     (case cs of
        MmapTableReader tr \<Rightarrow>
          (let offsetRecSlice = findOffsets tr (ls_gr st)
           in if length offsetRecSlice > 0
              then (let y = (case ls_ranges st (tr_h tr) of None \<Rightarrow> Map.empty | Some y0 \<Rightarrow> y0)
                    in case addOffsetRecs tr offsetRecSlice (y, ls_hashes st) of
                         Panics \<Rightarrow> Panics
                       | Returns (y1, hashes1) \<Rightarrow>
                           Returns (None, \<lparr>ls_gr = toGetRecords hashes1, ls_hashes = hashes1,
                                           ls_ranges = (ls_ranges st)(tr_h tr \<mapsto> y1)\<rparr>))
              else Returns (None, st))
      | ChunkSourceAdapter tr \<Rightarrow>
          (let y = (case ls_ranges st (tr_h tr) of None \<Rightarrow> Map.empty | Some y0 \<Rightarrow> y0)
           in case tr_indexOf tr of
                (ti, Some e) \<Rightarrow> Returns (Some e, st)
              | (ti, None) \<Rightarrow>
                  (case lookupHashes ti (ls_hashes st) (y, []) of
                     Panics \<Rightarrow> Panics
                   | Returns (y1, foundHashes) \<Rightarrow>
                       Returns (None, st\<lparr>ls_ranges := (ls_ranges st)(tr_h tr \<mapsto> y1),
                                        ls_hashes := fold removeAll foundHashes (ls_hashes st)\<rparr>)))
      | NovelMemTable m \<Rightarrow> Panics)"

fun probeSources :: "chunkSource list \<Rightarrow> locState \<Rightarrow> (error option \<times> locState) outcome" where
  "probeSources [] st = Returns (None, st)"
| "probeSources (cs # css) st =
     (case probeSource cs st of
        Panics \<Rightarrow> Panics
      | Returns (Some e, st1) \<Rightarrow> Returns (Some e, st1)
      | Returns (None, st1) \<Rightarrow> probeSources css st1)"

text \<open>\<^verbatim>\<open>GetChunkLocations\<close> returns the map and the error; the third component is the caller's
  hash set as the call leaves it.\<close>

definition GetChunkLocations ::
  "NomsBlockStore \<Rightarrow> hash list \<Rightarrow> (ranges option \<times> error option \<times> hash list) outcome" where
  "GetChunkLocations s hashes =
     (let st0 = \<lparr>ls_gr = toGetRecords hashes, ls_hashes = hashes, ls_ranges = Map.empty\<rparr>
      in case probeSources (ts_upstream (tables s)) st0 of
           Panics \<Rightarrow> Panics
         | Returns (Some e, st1) \<Rightarrow> Returns (None, Some e, ls_hashes st1)
         | Returns (None, st1) \<Rightarrow>
             (case probeSources (ts_novel (tables s)) st1 of
                Panics \<Rightarrow> Panics
              | Returns (Some e, st2) \<Rightarrow> Returns (None, Some e, ls_hashes st2)
              | Returns (None, st2) \<Rightarrow> Returns (Some (ls_ranges st2), None, ls_hashes st2)))"


definition at_most_one_table :: "ranges \<Rightarrow> bool" where
  "at_most_one_table rs =
     (\<forall>t1 t2 y1 y2 h. rs t1 = Some y1 \<and> rs t2 = Some y2 \<and> y1 h \<noteq> None \<and> y2 h \<noteq> None \<longrightarrow> t1 = t2)"



subsection \<open>Concrete stores and chunks\<close>

text \<open>A store whose memtable of four bytes is exactly at its budget and whose table set is
  empty, a chunk of two bytes, and a toy content hash (the length of the bytes) under which
  the chunk is content-addressed.\<close>

definition noTables :: tableSet where
  "noTables = \<lparr>ts_novel = [], ts_upstream = []\<rparr>"

definition manifest0 :: manifestContents where
  "manifest0 = \<lparr>vers = ''7.18'', lock = 0, root = 0, specs = []\<rparr>"

definition fullMemTable :: memTable where
  "fullMemTable = \<lparr>maxData = 4, totalData = 4, chunks = [(4, Some [1, 2, 3, 4])]\<rparr>"

definition fullStore :: NomsBlockStore where
  "fullStore = \<lparr>mt = Some fullMemTable, tables = noTables, upstream = manifest0,
                 mtSize = 4, putCount = 1\<rparr>"

definition lengthHash :: "bytes \<Rightarrow> hash" where
  "lengthHash b = of_nat (length b)"

definition twoBytes :: chunk where
  "twoBytes = NewChunk lengthHash (Some [9, 9])"

text \<open>The chunk whose data is the \<^verbatim>\<open>nil\<close> slice.\<close>

definition nilChunk :: chunk where
  "nilChunk = NewChunk lengthHash None"

text \<open>Two table files of one chunk each: \<open>tableA\<close> holds three readable bytes at address 3,
  \<open>tableB\<close> holds at address 5 a chunk record that cannot be read. \<open>tableStore\<close> has
  the full memtable, the same memtable sealed as a novel table, and both files upstream.\<close>

definition tableA :: tableReader where
  "tableA = \<lparr>tr_h = 100,
              tr_index = \<lparr>chunkCount = 1, prefixes = [0], ordinals = [0], lengths = [3],
                           offsets = [0], suffixes = [3]\<rparr>,
              tr_records = [Inr [5, 6, 7]]\<rparr>"

definition tableB :: tableReader where
  "tableB = \<lparr>tr_h = 101,
              tr_index = \<lparr>chunkCount = 1, prefixes = [0], ordinals = [0], lengths = [5],
                           offsets = [0], suffixes = [5]\<rparr>,
              tr_records = [Inl (errorsNew ''corrupt chunk record'')]\<rparr>"

definition tableStore :: NomsBlockStore where
  "tableStore = \<lparr>mt = Some fullMemTable,
                  tables = \<lparr>ts_novel = [NovelMemTable fullMemTable],
                             ts_upstream = [MmapTableReader tableA, ChunkSourceAdapter tableB]\<rparr>,
                  upstream = manifest0, mtSize = 4, putCount = 1\<rparr>"

text \<open>The table file \<open>tableA\<close> under a second name, and a store whose upstream tables are
  an adapter over \<open>tableA\<close> followed by a memory-mapped reader of the copy.\<close>

definition tableA2 :: tableReader where
  "tableA2 = tableA\<lparr>tr_h := 102\<rparr>"

definition mixedStore :: NomsBlockStore where
  "mixedStore = \<lparr>mt = None,
                  tables = \<lparr>ts_novel = [],
                             ts_upstream = [ChunkSourceAdapter tableA, MmapTableReader tableA2]\<rparr>,
                  upstream = manifest0, mtSize = 4, putCount = 0\<rparr>"

text \<open>\<open>fullStore\<close> after the chunk of two bytes has been put: the full memtable is a novel
  table and the chunk is in a fresh memtable.\<close>

definition rotatedStore :: NomsBlockStore where
  "rotatedStore = \<lparr>mt = Some \<lparr>maxData = 4, totalData = 2, chunks = [(2, Some [9, 9])]\<rparr>,
                    tables = \<lparr>ts_novel = [NovelMemTable fullMemTable], ts_upstream = []\<rparr>,
                    upstream = manifest0, mtSize = 4, putCount = 2\<rparr>"



definition upstreamStore :: NomsBlockStore where
  "upstreamStore = \<lparr>mt = None,
                     tables = \<lparr>ts_novel = [], ts_upstream = [MmapTableReader tableA]\<rparr>,
                     upstream = manifest0, mtSize = 4, putCount = 0\<rparr>"

subsection \<open>A concrete environment\<close>

text \<open>Modelled from the spec: a small instance of the collaborators, on which the facade is
  run at concrete inputs. Spec 4.5: the manifest is a single mutable record in backing
  storage; \<^verbatim>\<open>Fetch\<close> reads it; \<^verbatim>\<open>Update(prevLock, newContents)\<close> is a compare-and-set that
  writes \<^verbatim>\<open>newContents\<close> when the stored lock is \<^verbatim>\<open>prevLock\<close> and returns the winning
  contents; the in-process cache remembers the most recently observed manifest and
  \<^verbatim>\<open>updateWillFail(prevLock)\<close> answers from it; \<^verbatim>\<open>LockForUpdate\<close> and \<^verbatim>\<open>UnlockForUpdate\<close>
  serialise the writers of one process. A store without manifest has the zero lock.\<close>

record world =
  persisted :: "manifestContents option"
  cached :: "manifestContents option"
  updating :: bool

definition noContents :: manifestContents where
  "noContents = \<lparr>vers = [], lock = 0, root = 0, specs = []\<rparr>"

definition refFetch :: "world \<Rightarrow> (bool \<times> manifestContents \<times> error option) \<times> world" where
  "refFetch w =
     (case persisted w of
        None \<Rightarrow> ((False, noContents, None), w)
      | Some c \<Rightarrow> ((True, c, None), w\<lparr>cached := Some c\<rparr>))"

definition refUpdate ::
  "addr \<Rightarrow> manifestContents \<Rightarrow> world \<Rightarrow> (manifestContents \<times> error option) \<times> world" where
  "refUpdate lastLock new w =
     (case persisted w of
        None \<Rightarrow>
          if lastLock = 0 then ((new, None), w\<lparr>persisted := Some new, cached := Some new\<rparr>)
          else ((noContents, None), w)
      | Some c \<Rightarrow>
          if lock c = lastLock then ((new, None), w\<lparr>persisted := Some new, cached := Some new\<rparr>)
          else ((c, None), w\<lparr>cached := Some c\<rparr>))"

definition refUpdateWillFail :: "addr \<Rightarrow> world \<Rightarrow> manifestContents \<times> bool" where
  "refUpdateWillFail lastLock w =
     (case cached w of
        None \<Rightarrow> (noContents, False)
      | Some c \<Rightarrow> (c, lock c \<noteq> lastLock))"

definition refLockForUpdate :: "world \<Rightarrow> world" where
  "refLockForUpdate w = w\<lparr>updating := True\<rparr>"

definition refUnlockForUpdate :: "world \<Rightarrow> error option \<times> world" where
  "refUnlockForUpdate w =
     (if updating w then (None, w\<lparr>updating := False\<rparr>)
      else (Some (errorsNew ''unlock for update called when not locked''), w))"

text \<open>Modelled from the spec: the table-set methods of the environment, on table sets of
  table readers. Spec 4.2: \<^verbatim>\<open>ToSpecs\<close> returns the manifest-ready spec list (name and chunk
  count of every table); \<^verbatim>\<open>Rebase\<close> reconciles upstream against a new spec list,
  preserving the novel tables that are not yet committed; \<^verbatim>\<open>Flatten\<close> merges novel into
  upstream. A table named in a spec list is opened among the tables at hand; a sealed
  memtable stands under the zero name, its table file not being written here.\<close>

definition cs_spec :: "chunkSource \<Rightarrow> tableSpec" where
  "cs_spec cs =
     (case cs of
        MmapTableReader tr \<Rightarrow> (tr_h tr, chunkCount (tr_index tr))
      | ChunkSourceAdapter tr \<Rightarrow> (tr_h tr, chunkCount (tr_index tr))
      | NovelMemTable m \<Rightarrow> (0, fst (mt_count m)))"

definition refToSpecs :: "tableSet \<Rightarrow> world \<Rightarrow> (tableSpec list \<times> error option) \<times> world" where
  "refToSpecs ts w = ((map cs_spec (ts_novel ts @ ts_upstream ts), None), w)"

definition refRebase ::
  "tableSet \<Rightarrow> tableSpec list \<Rightarrow> world \<Rightarrow> (tableSet \<times> error option) \<times> world" where
  "refRebase ts sp w =
     (let known = ts_novel ts @ ts_upstream ts;
          opened = map (\<lambda>spec. find (\<lambda>cs. fst (cs_spec cs) = fst spec) known) sp
      in if list_ex (\<lambda>x. x = None) opened
         then ((ts, Some (errorsNew ''table file not found'')), w)
         else ((\<lparr>ts_novel = filter (\<lambda>cs. \<not> list_ex (\<lambda>spec. fst (cs_spec cs) = fst spec) sp)
                                 (ts_novel ts),
                 ts_upstream = concat (map (\<lambda>x. case x of None \<Rightarrow> [] | Some cs \<Rightarrow> [cs]) opened)\<rparr>,
                None), w))"

definition refFlatten :: "tableSet \<Rightarrow> world \<Rightarrow> (tableSet \<times> error option) \<times> world" where
  "refFlatten ts w = ((\<lparr>ts_novel = [], ts_upstream = ts_novel ts @ ts_upstream ts\<rparr>, None), w)"

text \<open>A stand-in for \<^verbatim>\<open>generateLockHash\<close>, which is a cryptographic hash of the root and the
  specs.\<close>

definition refLockHash :: "hash \<Rightarrow> tableSpec list \<Rightarrow> addr" where
  "refLockHash r sp = 1000 * r + of_nat (length sp) + 1"

text \<open>The environment. Its conjoiner never asks for a conjoin.\<close>

definition refEnv :: "world collaborators" where
  "refEnv =
     \<lparr>mm_Fetch = refFetch, mm_Update = refUpdate, mm_updateWillFail = refUpdateWillFail,
      mm_LockForUpdate = refLockForUpdate, mm_UnlockForUpdate = refUnlockForUpdate,
      ts_Rebase = refRebase, ts_Flatten = refFlatten, ts_ToSpecs = refToSpecs,
      c_ConjoinRequired = (\<lambda>ts. False), c_Conjoin = (\<lambda>up w. ((up, None), w)),
      generateLockHash = refLockHash\<rparr>"

text \<open>The same environment with a \<^verbatim>\<open>Flatten\<close> that fails.\<close>

definition failingFlatten :: "tableSet \<Rightarrow> world \<Rightarrow> (tableSet \<times> error option) \<times> world" where
  "failingFlatten ts w = ((noTables, Some (errorsNew ''flatten failed'')), w)"

definition flattenFailsEnv :: "world collaborators" where
  "flattenFailsEnv = refEnv\<lparr>ts_Flatten := failingFlatten\<rparr>"

text \<open>Manifests, worlds and stores for the commit protocol: \<open>manifestR1\<close> and
  \<open>manifestR1b\<close> have root 1 under different locks, \<open>manifestR2\<close> has root 2. A world
  holds one of them as the persisted manifest; an idle store has neither memtable nor
  tables, a busy store has a memtable of one chunk, \<open>nineStore\<close> one of nine chunks.\<close>

definition manifestR1 :: manifestContents where
  "manifestR1 = \<lparr>vers = ''7.18'', lock = 11, root = 1, specs = []\<rparr>"

definition manifestR1b :: manifestContents where
  "manifestR1b = \<lparr>vers = ''7.18'', lock = 44, root = 1, specs = []\<rparr>"

definition manifestR2 :: manifestContents where
  "manifestR2 = \<lparr>vers = ''7.18'', lock = 22, root = 2, specs = []\<rparr>"

text \<open>Manifests that name table files: \<open>manifestR1T\<close> names \<open>tableA\<close>, \<open>manifestR2T\<close> names
  \<open>tableA\<close> and \<open>tableB\<close>. \<open>twoTableStore\<close> is an idle store at \<open>manifestR2T\<close> with both
  tables open, \<open>oneTableStore\<close> an idle store at \<open>manifestR1T\<close> with \<open>tableA\<close> open.\<close>

definition manifestR1T :: manifestContents where
  "manifestR1T = \<lparr>vers = ''7.18'', lock = 33, root = 1, specs = [(100, 1)]\<rparr>"

definition manifestR2T :: manifestContents where
  "manifestR2T = \<lparr>vers = ''7.18'', lock = 55, root = 2, specs = [(100, 1), (101, 1)]\<rparr>"

definition twoTableStore :: NomsBlockStore where
  "twoTableStore = \<lparr>mt = None,
                     tables = \<lparr>ts_novel = [],
                                ts_upstream = [MmapTableReader tableA, ChunkSourceAdapter tableB]\<rparr>,
                     upstream = manifestR2T, mtSize = 4, putCount = 0\<rparr>"

definition oneTableStore :: NomsBlockStore where
  "oneTableStore = \<lparr>mt = None,
                     tables = \<lparr>ts_novel = [], ts_upstream = [MmapTableReader tableA]\<rparr>,
                     upstream = manifestR1T, mtSize = 4, putCount = 0\<rparr>"

definition worldAt :: "manifestContents \<Rightarrow> world" where
  "worldAt c = \<lparr>persisted = Some c, cached = None, updating = False\<rparr>"

definition idleStore :: "manifestContents \<Rightarrow> NomsBlockStore" where
  "idleStore c = \<lparr>mt = None, tables = noTables, upstream = c, mtSize = 4, putCount = 0\<rparr>"

definition busyStore :: "manifestContents \<Rightarrow> NomsBlockStore" where
  "busyStore c = \<lparr>mt = Some fullMemTable, tables = noTables, upstream = c, mtSize = 4,
                   putCount = 1\<rparr>"

text \<open>The busy store after its memtable has been sealed into the novel tables, the
  manifest that a commit of root 5 with that one table proposes, and the table set and
  the store after that commit, the novel table having become upstream. \<open>lockedWorld c k\<close> is a world under the update lock
  with persisted manifest \<open>c\<close> and cache \<open>k\<close>.\<close>

definition sealedTables :: tableSet where
  "sealedTables = \<lparr>ts_novel = [NovelMemTable fullMemTable], ts_upstream = []\<rparr>"

definition sealedStore :: "manifestContents \<Rightarrow> NomsBlockStore" where
  "sealedStore c = \<lparr>mt = None, tables = sealedTables, upstream = c, mtSize = 4, putCount = 1\<rparr>"

definition manifestR5 :: manifestContents where
  "manifestR5 = \<lparr>vers = ''7.18'', lock = 5002, root = 5, specs = [(0, 1)]\<rparr>"

definition flattenedTables :: tableSet where
  "flattenedTables = \<lparr>ts_novel = [], ts_upstream = [NovelMemTable fullMemTable]\<rparr>"

definition committedStore :: NomsBlockStore where
  "committedStore = \<lparr>mt = None, tables = flattenedTables, upstream = manifestR5, mtSize = 4,
                      putCount = 1\<rparr>"

definition lockedWorld :: "manifestContents \<Rightarrow> manifestContents option \<Rightarrow> world" where
  "lockedWorld c k = \<lparr>persisted = Some c, cached = k, updating = True\<rparr>"

definition nineMemTable :: memTable where
  "nineMemTable =
     \<lparr>maxData = 16, totalData = 9,
      chunks = [(1, Some [1]), (2, Some [2]), (3, Some [3]), (4, Some [4]), (5, Some [5]),
                (6, Some [6]), (7, Some [7]), (8, Some [8]), (9, Some [9])]\<rparr>"

definition nineStore :: NomsBlockStore where
  "nineStore = \<lparr>mt = Some nineMemTable, tables = noTables, upstream = manifestR1, mtSize = 16,
                 putCount = 9\<rparr>"

section \<open>Properties\<close>

subsection \<open>Put and Get\<close>

lemma cs_get_absent: "\<not> cs_has cs a \<Longrightarrow> cs_get cs a = (None, None)"
  by (cases cs) (auto simp: cs_has_def cs_get_def tr_get_def mt_get_def mt_has_def)

lemma css_get_absent: "\<forall>cs\<in>set css. \<not> cs_has cs a \<Longrightarrow> css_get css a = (None, None)"
  by (induction css) (simp_all add: cs_get_absent)

text \<open>C5: \<^verbatim>\<open>Get(ctx, h)\<close> for an address that is neither in the memtable nor in any novel
  or upstream table returns the empty chunk and a \<^verbatim>\<open>nil\<close> error: absence of data is never
  reported as an error.\<close>

theorem Get_absent:
  assumes "case mt s of None \<Rightarrow> True | Some m \<Rightarrow> \<not> mt_has m h"
      and "\<forall>cs\<in>set (ts_novel (tables s)). \<not> cs_has cs h"
      and "\<forall>cs\<in>set (ts_upstream (tables s)). \<not> cs_has cs h"
  shows "Get H s h = (EmptyChunk H, None)"
  using assms
  by (auto simp: Get_def ts_get_def css_get_absent mt_get_def mt_has_def split: option.splits)

lemma mt_get_after_add:
  "mt_addChunk m h d = (True, m') \<Longrightarrow> mt_get m' h = (d, None)"
  by (auto simp: mt_addChunk_def mt_get_def update_conv split: if_splits)

lemma addChunk_mt:
  "addChunk s h d = (True, s') \<Longrightarrow> \<exists>m. mt s' = Some m \<and> mt_get m h = (d, None)"
  by (auto simp: addChunk_def currentMemTable_def Let_def split: prod.splits if_splits
        dest: mt_get_after_add)

lemma css_get_agree:
  "\<forall>cs\<in>set css. cs_get cs a \<in> {(None, None), (Some b, None)} \<Longrightarrow>
     css_get css a \<in> {(None, None), (Some b, None)}"
  by (induction css) (auto split: prod.splits option.splits)

text \<open>C1: \<^verbatim>\<open>Put\<close> followed by \<^verbatim>\<open>Get\<close> round-trips. After \<^verbatim>\<open>Put(ctx, c)\<close> has succeeded, the
  memtable of the store holds the data of \<open>c\<close> under its address, and
  \<^verbatim>\<open>Get(ctx, H(c.bytes))\<close> on that store returns, without error, a chunk whose bytes are
  those of \<open>c\<close>. A chunk with data is found in the memtable, which is probed first, and
  is returned as that address with that data. The chunk whose data slice is \<^verbatim>\<open>nil\<close> is
  stored as \<^verbatim>\<open>nil\<close>, which \<^verbatim>\<open>Get\<close> takes as absent from the memtable and looks up in the
  tables; for that chunk the store's invariant is assumed that no table holds other bytes
  under the same address.\<close>

theorem Put_Get_roundtrip:
  assumes put: "Put s c = (None, s')"
      and addressed: "Hash c = H (bytes_of (Data c))"
      and agree: "Data c = None \<longrightarrow>
            (\<forall>cs\<in>set (ts_novel (tables s') @ ts_upstream (tables s')).
               cs_get cs (Hash c) \<in> {(None, None), (Some [], None)})"
  shows "(\<exists>m. mt s' = Some m \<and> mt_get m (Hash c) = (Data c, None)) \<and>
         (Data c \<noteq> None \<longrightarrow>
            Get H s' (H (bytes_of (Data c))) = (NewChunkWithHash (Hash c) (Data c), None)) \<and>
         (\<exists>ch. Get H s' (H (bytes_of (Data c))) = (ch, None) \<and>
               bytes_of (Data ch) = bytes_of (Data c))"
proof -
  from put obtain s1 where add: "addChunk s (Hash c) (Data c) = (True, s1)"
    and s': "s' = s1\<lparr>putCount := putCount s1 + 1\<rparr>"
    by (auto simp: Put_def Let_def split: prod.splits if_splits)
  from addChunk_mt[OF add] obtain m where m: "mt s1 = Some m" "mt_get m (Hash c) = (Data c, None)"
    by blast
  from m s' have held: "\<exists>m. mt s' = Some m \<and> mt_get m (Hash c) = (Data c, None)"
    by simp
  show ?thesis
  proof (cases "Data c")
    case (Some b)
    with m s' addressed
    have "Get H s' (H (bytes_of (Data c))) = (NewChunkWithHash (Hash c) (Data c), None)"
      by (simp add: Get_def)
    with held Some show ?thesis
      by (simp add: NewChunkWithHash_def Data_def)
  next
    case None
    from agree None
    have a1: "\<forall>cs\<in>set (ts_novel (tables s')). cs_get cs (Hash c) \<in> {(None, None), (Some [], None)}"
      and a2: "\<forall>cs\<in>set (ts_upstream (tables s')). cs_get cs (Hash c) \<in> {(None, None), (Some [], None)}"
      by simp_all
    from css_get_agree[OF a1] css_get_agree[OF a2]
    have "ts_get (tables s') (Hash c) \<in> {(None, None), (Some [], None)}"
      by (auto simp: ts_get_def)
    with m s' None addressed
    have "\<exists>ch. Get H s' (H (bytes_of (Data c))) = (ch, None) \<and>
               bytes_of (Data ch) = bytes_of (Data c)"
      by (auto simp: Get_def NewChunkWithHash_def EmptyChunk_def NewChunk_def Data_def bytes_of_def)
    with held None show ?thesis
      by simp
  qed
qed

lemma mt_addChunk_fresh: "fst (mt_addChunk (newMemTable sz) h d) = (len d \<le> unat sz)"
  by (simp add: mt_addChunk_def newMemTable_def)

lemma mt_addChunk_rejects: "\<not> fst (mt_addChunk m h d) \<Longrightarrow> snd (mt_addChunk m h d) = m"
  by (simp add: mt_addChunk_def split: if_splits)

text \<open>C7: \<^verbatim>\<open>Put\<close> fails only in the pathological case. When the current memtable accepts
  the chunk, \<^verbatim>\<open>Put\<close> succeeds. When it rejects the chunk, that memtable is prepended to
  the novel tables, a fresh memtable of \<^verbatim>\<open>mtSize\<close> bytes is allocated and the add is retried
  once, \<^verbatim>\<open>Put\<close> succeeding exactly when the retry does. So every chunk that fits in a
  fresh memtable is put successfully, whatever the fill of the old memtable, and a failing
  \<^verbatim>\<open>Put\<close> means a chunk larger than the whole budget.\<close>

theorem Put_rotates_once:
  "(fst (mt_addChunk (currentMemTable s) (Hash c) (Data c)) \<longrightarrow>
      Put s c = (None, s\<lparr>mt := Some (snd (mt_addChunk (currentMemTable s) (Hash c) (Data c))),
                          putCount := putCount s + 1\<rparr>)) \<and>
   (\<not> fst (mt_addChunk (currentMemTable s) (Hash c) (Data c)) \<longrightarrow>
      tables (snd (Put s c)) = ts_Prepend (tables s) (currentMemTable s) \<and>
      mt (snd (Put s c)) = Some (snd (mt_addChunk (newMemTable (mtSize s)) (Hash c) (Data c))) \<and>
      (fst (Put s c) = None) = fst (mt_addChunk (newMemTable (mtSize s)) (Hash c) (Data c))) \<and>
   (len (Data c) \<le> unat (mtSize s) \<longrightarrow> fst (Put s c) = None) \<and>
   (fst (Put s c) \<noteq> None \<longrightarrow> unat (mtSize s) < len (Data c))"
proof -
  obtain ok m1 where a: "mt_addChunk (currentMemTable s) (Hash c) (Data c) = (ok, m1)"
    by fastforce
  obtain ok2 m2 where b: "mt_addChunk (newMemTable (mtSize s)) (Hash c) (Data c) = (ok2, m2)"
    by fastforce
  from b mt_addChunk_fresh[of "mtSize s" "Hash c" "Data c"]
  have ok2: "ok2 = (len (Data c) \<le> unat (mtSize s))"
    by simp
  from a mt_addChunk_rejects[of "currentMemTable s" "Hash c" "Data c"]
  have m1: "\<not> ok \<Longrightarrow> m1 = currentMemTable s"
    by simp
  show ?thesis
  proof (cases ok)
    case True
    with a show ?thesis
      by (simp add: Put_def addChunk_def)
  next
    case False
    with a b ok2 m1 show ?thesis
      by (cases ok2) (simp_all add: Put_def addChunk_def)
  qed
qed

theorem Put_rotates_once_witness:
  "\<not> fst (mt_addChunk (currentMemTable fullStore) (Hash twoBytes) (Data twoBytes)) \<and>
   len (Data twoBytes) \<le> unat (mtSize fullStore) \<and>
   fst (Put fullStore twoBytes) = None \<and>
   tables (snd (Put fullStore twoBytes)) = \<lparr>ts_novel = [NovelMemTable fullMemTable], ts_upstream = []\<rparr> \<and>
   mt (snd (Put fullStore twoBytes)) = Some \<lparr>maxData = 4, totalData = 2, chunks = [(2, Some [9, 9])]\<rparr>"
proof -
  have rej: "\<not> fst (mt_addChunk (currentMemTable fullStore) (Hash twoBytes) (Data twoBytes))"
    by (simp add: mt_addChunk_def currentMemTable_def fullStore_def fullMemTable_def
          twoBytes_def NewChunk_def Data_def len_def)
  have fits: "len (Data twoBytes) \<le> unat (mtSize fullStore)"
    by (simp add: fullStore_def twoBytes_def NewChunk_def Data_def len_def)
  have fresh: "snd (mt_addChunk (newMemTable (mtSize fullStore)) (Hash twoBytes) (Data twoBytes))
      = \<lparr>maxData = 4, totalData = 2, chunks = [(2, Some [9, 9])]\<rparr>"
    by (simp add: mt_addChunk_def newMemTable_def fullStore_def twoBytes_def NewChunk_def
          Data_def Hash_def len_def lengthHash_def bytes_of_def)
  have cur: "ts_Prepend (tables fullStore) (currentMemTable fullStore)
      = \<lparr>ts_novel = [NovelMemTable fullMemTable], ts_upstream = []\<rparr>"
    by (simp add: ts_Prepend_def currentMemTable_def fullStore_def noTables_def)
  from Put_rotates_once[of fullStore twoBytes] rej fits fresh cur show ?thesis
    by simp
qed

lemmas concrete_defs = fullStore_def fullMemTable_def noTables_def manifest0_def twoBytes_def
  nilChunk_def lengthHash_def tableA_def tableB_def tableStore_def upstreamStore_def

lemmas chunk_defs = NewChunk_def NewChunkWithHash_def EmptyChunk_def Hash_def Data_def
  bytes_of_def len_def

lemmas table_defs = cs_has_def cs_get_def tr_has_def tr_get_def lookupOrdinal_def nth_opt_def
  Prefix_def Suffix_def mt_has_def mt_get_def ts_get_def

theorem Get_absent_witness:
  "\<not> mt_has fullMemTable 9 \<and> \<not> cs_has (NovelMemTable fullMemTable) 9 \<and>
   \<not> cs_has (MmapTableReader tableA) 9 \<and> \<not> cs_has (ChunkSourceAdapter tableB) 9 \<and>
   Get lengthHash tableStore 9 = (EmptyChunk lengthHash, None) \<and>
   Get lengthHash tableStore 5 = (EmptyChunk lengthHash, Some (errorsNew ''corrupt chunk record''))"
proof -
  have m: "case mt tableStore of None \<Rightarrow> True | Some m \<Rightarrow> \<not> mt_has m 9"
    by (simp add: concrete_defs table_defs)
  have n: "\<forall>cs\<in>set (ts_novel (tables tableStore)). \<not> cs_has cs 9"
    by (simp add: concrete_defs table_defs)
  have u: "\<forall>cs\<in>set (ts_upstream (tables tableStore)). \<not> cs_has cs 9"
    by (simp add: concrete_defs table_defs)
  have e: "Get lengthHash tableStore 5 = (EmptyChunk lengthHash, Some (errorsNew ''corrupt chunk record''))"
    by (simp add: Get_def concrete_defs table_defs)
  from Get_absent[OF m n u, of lengthHash] m n u e show ?thesis
    by (simp add: tableStore_def)
qed

theorem Put_Get_roundtrip_witness:
  "Get lengthHash fullStore 2 = (EmptyChunk lengthHash, None) \<and>
   Put fullStore twoBytes = (None, rotatedStore) \<and>
   Data twoBytes = Some [9, 9] \<and>
   mt_get \<lparr>maxData = 4, totalData = 2, chunks = [(2, Some [9, 9])]\<rparr> 2 = (Some [9, 9], None) \<and>
   Get lengthHash rotatedStore 2 = (NewChunkWithHash 2 (Some [9, 9]), None) \<and>
   Put upstreamStore nilChunk =
     (None, upstreamStore\<lparr>mt := Some \<lparr>maxData = 4, totalData = 0, chunks = [(0, None)]\<rparr>,
                           putCount := 1\<rparr>) \<and>
   Data nilChunk = None \<and>
   cs_get (MmapTableReader tableA) (Hash nilChunk) = (None, None) \<and>
   (\<exists>ch. Get lengthHash
           (upstreamStore\<lparr>mt := Some \<lparr>maxData = 4, totalData = 0, chunks = [(0, None)]\<rparr>,
                           putCount := 1\<rparr>) 0 = (ch, None) \<and> bytes_of (Data ch) = [])"
proof -
  have before: "Get lengthHash fullStore 2 = (EmptyChunk lengthHash, None)"
    by (simp add: Get_def concrete_defs table_defs)
  have p2: "Put fullStore twoBytes = (None, rotatedStore)"
    by (simp add: Put_def addChunk_def currentMemTable_def mt_addChunk_def newMemTable_def
          ts_Prepend_def rotatedStore_def concrete_defs chunk_defs)
  have a2: "Hash twoBytes = lengthHash (bytes_of (Data twoBytes))"
    by (simp add: concrete_defs chunk_defs)
  have d2: "Data twoBytes = Some [9, 9]" "Hash twoBytes = 2"
    "lengthHash (bytes_of (Data twoBytes)) = 2"
    by (simp_all add: concrete_defs chunk_defs)
  then have g2: "Data twoBytes = None \<longrightarrow>
            (\<forall>cs\<in>set (ts_novel (tables rotatedStore) @ ts_upstream (tables rotatedStore)).
               cs_get cs (Hash twoBytes) \<in> {(None, None), (Some [], None)})"
    by simp
  have m2: "mt rotatedStore = Some \<lparr>maxData = 4, totalData = 2, chunks = [(2, Some [9, 9])]\<rparr>"
    by (simp add: rotatedStore_def)
  note with_data = Put_Get_roundtrip[where H = lengthHash, OF p2 a2 g2]
  let ?s' = "upstreamStore\<lparr>mt := Some \<lparr>maxData = 4, totalData = 0, chunks = [(0, None)]\<rparr>,
                           putCount := 1\<rparr>"
  have p: "Put upstreamStore nilChunk = (None, ?s')"
    by (simp add: Put_def addChunk_def currentMemTable_def mt_addChunk_def newMemTable_def
          concrete_defs chunk_defs)
  have a: "Hash nilChunk = lengthHash (bytes_of (Data nilChunk))"
    by (simp add: concrete_defs chunk_defs)
  have t: "cs_get (MmapTableReader tableA) (Hash nilChunk) = (None, None)"
    by (simp add: concrete_defs chunk_defs table_defs)
  then have g: "Data nilChunk = None \<longrightarrow>
            (\<forall>cs\<in>set (ts_novel (tables ?s') @ ts_upstream (tables ?s')).
               cs_get cs (Hash nilChunk) \<in> {(None, None), (Some [], None)})"
    by (simp add: upstreamStore_def)
  have d: "Data nilChunk = None" "lengthHash (bytes_of (Data nilChunk)) = 0"
    by (simp_all add: concrete_defs chunk_defs)
  note without_data = Put_Get_roundtrip[where H = lengthHash, OF p a g]
  from with_data without_data before p2 d2 m2 p t d show ?thesis
    by (simp add: bytes_of_def)
qed

subsection \<open>The commit protocol, for every environment\<close>

lemma mt_count_no_error: "snd (mt_count m) = None"
  by (simp add: mt_count_def)

lemma Commit_preflush_no_error: "fst (Commit_preflush s) = None"
  by (simp add: Commit_preflush_def mt_count_def split: option.splits)

lemma updateManifest_flush_no_error: "fst (updateManifest_flush s) = None"
  by (simp add: updateManifest_flush_def mt_count_def split: option.splits)

lemma Commit_slow_path:
  assumes "anyPossiblyNovelChunks s \<or> current \<noteq> last'"
  shows "Commit D w s current last' =
           map_option (Commit_unlock D)
             (Commit_loop D (mm_LockForUpdate D w) (snd (Commit_preflush s)) current last')"
proof -
  obtain s1 where "Commit_preflush s = (None, s1)"
    using Commit_preflush_no_error[of s] by (cases "Commit_preflush s") simp
  with assms show ?thesis
    by (auto simp: Commit_def)
qed

lemma Commit_preflush_upstream: "upstream (snd (Commit_preflush s)) = upstream s"
  by (simp add: Commit_preflush_def mt_count_def split: option.splits)

lemma Commit_loop_mismatch:
  "root (upstream s) \<noteq> last' \<Longrightarrow> Commit_loop D w s current last' = Some ((False, None), w, s)"
  by (subst Commit_loop.simps) (simp add: updateManifest_def)

text \<open>C3, as amended: if at commit time the store's upstream root differs from the caller's
  \<^verbatim>\<open>last\<close>, and the commit is not the no-op that \<^verbatim>\<open>Commit\<close> answers by a \<^verbatim>\<open>Rebase\<close> (the store
  holds a memtable or novel tables, or \<^verbatim>\<open>current\<close> differs from \<^verbatim>\<open>last\<close>), then \<^verbatim>\<open>Commit\<close>
  returns \<^verbatim>\<open>(false, nil)\<close> (the update lock being released without error). Outside the
  store only \<^verbatim>\<open>LockForUpdate\<close> and \<^verbatim>\<open>UnlockForUpdate\<close> are called: the manifest is neither
  fetched nor written, and no compare-and-set is attempted. The store is left as the
  pre-flush of the memtable leaves it.\<close>

theorem Commit_last_root_mismatch:
  assumes "root (upstream s) \<noteq> last'"
      and "anyPossiblyNovelChunks s \<or> current \<noteq> last'"
      and "fst (mm_UnlockForUpdate D (mm_LockForUpdate D w)) = None"
  shows "Commit D w s current last' =
           Some ((False, None), snd (mm_UnlockForUpdate D (mm_LockForUpdate D w)),
                 snd (Commit_preflush s))"
proof -
  from assms(1) have "root (upstream (snd (Commit_preflush s))) \<noteq> last'"
    by (simp add: Commit_preflush_upstream)
  then have "Commit_loop D (mm_LockForUpdate D w) (snd (Commit_preflush s)) current last'
      = Some ((False, None), mm_LockForUpdate D w, snd (Commit_preflush s))"
    by (rule Commit_loop_mismatch)
  with assms(3) show ?thesis
    by (auto simp: Commit_slow_path[OF assms(2)] Commit_unlock_def split: prod.splits)
qed

lemma handleOptimisticLockFailure_error:
  "fst (handleOptimisticLockFailure D w s last' up) \<noteq> None"
  by (simp add: handleOptimisticLockFailure_def Let_def split: prod.splits option.splits)

lemma updateManifest_write_nil:
  assumes "updateManifest_write D w s current last' = (None, w1, s1)"
  shows "root (upstream s1) = current"
proof (cases "c_ConjoinRequired D (tables s)")
  case True
  with assms show ?thesis
    by (auto simp: updateManifest_write_def Let_def split: prod.splits option.splits)
next
  case False
  obtain sp e1 wa where sp: "ts_ToSpecs D (tables s) w = ((sp, e1), wa)"
    by (metis prod.exhaust)
  obtain up e2 wb where up: "mm_Update D (lock (upstream s)) (newContents D s current sp) wa = ((up, e2), wb)"
    by (metis prod.exhaust)
  obtain ts e3 wc where fl: "ts_Flatten D (tables s) wb = ((ts, e3), wc)"
    by (metis prod.exhaust)
  from assms False sp up fl handleOptimisticLockFailure_error[of D wb s last' up]
  show ?thesis
    by (auto simp: updateManifest_write_def newContents_def split: option.splits if_splits)
qed

lemma updateManifest_nil:
  assumes "updateManifest D w s current last' = (None, w1, s1)"
  shows "root (upstream s1) = current"
proof -
  obtain cached doomed where c: "mm_updateWillFail D (lock (upstream s)) w = (cached, doomed)"
    by (metis prod.exhaust)
  obtain s0 where f: "updateManifest_flush s = (None, s0)"
    using updateManifest_flush_no_error[of s] by (cases "updateManifest_flush s") simp
  from assms c f handleOptimisticLockFailure_error[of D w s last' cached]
  have "updateManifest_write D w s0 current last' = (None, w1, s1)"
    by (auto simp: updateManifest_def split: if_splits)
  then show ?thesis
    by (rule updateManifest_write_nil)
qed

lemma Commit_loop_success_aux:
  assumes "Commit_loop D w s current last' = Some res"
  shows "fst (fst res) \<longrightarrow> root (upstream (snd (snd res))) = current"
proof (rule Commit_loop.raw_induct[where P = "\<lambda>D w s current last' res.
          fst (fst res) \<longrightarrow> root (upstream (snd (snd res))) = current", OF _ assms], goal_cases)
  case (1 lp D w s current last' res)
  obtain err w1 s1 where u: "updateManifest D w s current last' = (err, w1, s1)"
    by (metis prod.exhaust)
  show ?case
  proof (cases err)
    case None
    with u 1(2) updateManifest_nil[of D w s current last' w1 s1] show ?thesis
      by auto
  next
    case (Some e)
    with u 1 show ?thesis
      by (auto split: if_splits)
  qed
qed

lemma Commit_loop_success:
  "Commit_loop D w s current last' = Some ((True, e), w', s') \<Longrightarrow> root (upstream s') = current"
  using Commit_loop_success_aux[of D w s current last' "((True, e), w', s')"] by simp

text \<open>C4, as amended: after \<^verbatim>\<open>Commit(ctx, current, last)\<close> has returned success through the
  manifest update (the store held a memtable or novel tables, or \<^verbatim>\<open>current\<close> differs from
  \<^verbatim>\<open>last\<close>), \<^verbatim>\<open>Root(ctx)\<close> on the resulting store returns \<^verbatim>\<open>current\<close>.\<close>

theorem Commit_success_sets_root:
  assumes "anyPossiblyNovelChunks s \<or> current \<noteq> last'"
      and "Commit D w s current last' = Some ((True, err), w', s')"
  shows "Root s' = (current, None)"
proof -
  from assms(2) obtain res where l: "Commit_loop D (mm_LockForUpdate D w) (snd (Commit_preflush s)) current last' = Some res"
    and r: "Commit_unlock D res = ((True, err), w', s')"
    by (auto simp: Commit_slow_path[OF assms(1)])
  from r obtain e w2 where "res = ((True, e), w2, s')"
    by (auto simp: Commit_unlock_def split: prod.splits)
  with l show ?thesis
    by (simp add: Root_def Commit_loop_success)
qed

text \<open>C6: if the store holds no memtable and no novel tables and \<^verbatim>\<open>current\<close> equals \<^verbatim>\<open>last\<close>,
  \<^verbatim>\<open>Commit\<close> performs a \<^verbatim>\<open>Rebase\<close> and returns \<^verbatim>\<open>(true, nil)\<close> with the store that the
  \<^verbatim>\<open>Rebase\<close> leaves (\<^verbatim>\<open>Fetch\<close> and the \<^verbatim>\<open>Rebase\<close> of the table set reporting no error). When
  a manifest exists, the upstream of that store is the fetched manifest and its table set
  is the old one rebased onto the specs of that manifest; without a manifest the store is
  as it was. The manifest is not written: what is outside the store has only gone through
  \<^verbatim>\<open>Fetch\<close> and, when a manifest exists, through the \<^verbatim>\<open>Rebase\<close> of the table set.\<close>

theorem Commit_noop_rebases:
  assumes "mt s = None" and "ts_Novel (tables s) = 0" and "current = last'"
      and fetch: "mm_Fetch D w = ((exists, contents, None), w1)"
      and rebase: "exists \<longrightarrow> ts_Rebase D (tables s) (specs contents) w1 = ((ts, None), w2)"
  shows "Rebase D w s =
           (None, if exists then (w2, s\<lparr>tables := ts, upstream := contents\<rparr>) else (w1, s)) \<and>
         Commit D w s current last' =
           Some ((True, None),
                 if exists then (w2, s\<lparr>tables := ts, upstream := contents\<rparr>) else (w1, s))"
proof -
  from fetch rebase
  have r: "Rebase D w s =
           (None, if exists then (w2, s\<lparr>tables := ts, upstream := contents\<rparr>) else (w1, s))"
    by (simp add: Rebase_def)
  with assms(1-3) show ?thesis
    by (simp add: Commit_def anyPossiblyNovelChunks_def)
qed

lemma count_gt: "n < 2 ^ 32 \<Longrightarrow> ((of_nat n :: 32 word) > of_nat k) = (n > k)" if "k < 2 ^ 32"
  using that by (simp add: word_less_nat_alt unat_of_nat)

lemma mt_count_gt_8:
  "distinctCount m < 2 ^ 32 \<Longrightarrow>
     (fst (mt_count m) > preflushChunkCount) = (distinctCount m > 8)"
  using count_gt[of 8 "distinctCount m"] by (simp add: mt_count_def preflushChunkCount_def)

lemma mt_count_gt_0: "distinctCount m < 2 ^ 32 \<Longrightarrow> (fst (mt_count m) > 0) = (distinctCount m > 0)"
  using count_gt[of 0 "distinctCount m"] by (simp add: mt_count_def)

lemma updateManifest_reaches_write:
  assumes "root (upstream s) = last'" and "\<not> snd (mm_updateWillFail D (lock (upstream s)) w)"
  shows "updateManifest D w s current last' =
           updateManifest_write D w (snd (updateManifest_flush s)) current last'"
proof -
  obtain s0 where f: "updateManifest_flush s = (None, s0)"
    using updateManifest_flush_no_error[of s] by (cases "updateManifest_flush s") simp
  obtain cached doomed where c: "mm_updateWillFail D (lock (upstream s)) w = (cached, doomed)"
    by (metis prod.exhaust)
  with assms f show ?thesis
    by (simp add: updateManifest_def)
qed

text \<open>C8: at \<^verbatim>\<open>Commit\<close> entry, before the manifest update lock is taken, the memtable is
  prepended into the novel tables if and only if its distinct chunk count exceeds
  \<^verbatim>\<open>preflushChunkCount\<close>, which is 8; the locked update then runs on the store so
  prepared. Inside the locked update, once the root check and the cache check have
  passed, a memtable still there is prepended only if its count is not zero. The count
  is a \<^verbatim>\<open>uint32\<close>, so it is the distinct chunk count for fewer than \<open>2^32\<close> chunks.\<close>

theorem Commit_preflush_threshold:
  assumes "mt s = Some m" and "distinctCount m < 2 ^ 32"
  shows "Commit_preflush s =
           (None, if distinctCount m > 8
                  then s\<lparr>tables := ts_Prepend (tables s) m, mt := None\<rparr> else s) \<and>
         Commit D w s current last' =
           map_option (Commit_unlock D)
             (Commit_loop D (mm_LockForUpdate D w) (snd (Commit_preflush s)) current last') \<and>
         updateManifest_flush s =
           (None, if distinctCount m > 0
                  then s\<lparr>tables := ts_Prepend (tables s) m, mt := None\<rparr> else s) \<and>
         (root (upstream s) = last' \<and> \<not> snd (mm_updateWillFail D (lock (upstream s)) w1) \<longrightarrow>
            updateManifest D w1 s current last' =
              updateManifest_write D w1 (snd (updateManifest_flush s)) current last')"
proof -
  from assms mt_count_gt_8[OF assms(2)] mt_count_no_error[of m]
  have 1: "Commit_preflush s =
           (None, if distinctCount m > 8
                  then s\<lparr>tables := ts_Prepend (tables s) m, mt := None\<rparr> else s)"
    by (auto simp: Commit_preflush_def split: prod.splits option.splits)
  from assms(1) have 2: "Commit D w s current last' =
           map_option (Commit_unlock D)
             (Commit_loop D (mm_LockForUpdate D w) (snd (Commit_preflush s)) current last')"
    by (intro Commit_slow_path) (simp add: anyPossiblyNovelChunks_def)
  from assms mt_count_gt_0[OF assms(2)] mt_count_no_error[of m]
  have 3: "updateManifest_flush s =
           (None, if distinctCount m > 0
                  then s\<lparr>tables := ts_Prepend (tables s) m, mt := None\<rparr> else s)"
    by (auto simp: updateManifest_flush_def split: prod.splits option.splits)
  from 1 2 3 updateManifest_reaches_write[of s last' D w1 current] show ?thesis
    by blast
qed

lemma updateManifest_write_lost:
  assumes noconj: "\<not> c_ConjoinRequired D (tables s1)"
      and tospecs: "ts_ToSpecs D (tables s1) w = ((sp, None), w1)"
      and cas: "mm_Update D (lock (upstream s1)) (newContents D s1 current sp) w1 = ((up, None), w2)"
      and lost: "lock up \<noteq> generateLockHash D current sp"
      and rebase: "ts_Rebase D (tables s1) (specs up) w2 = ((ts, None), w3)"
  shows "updateManifest_write D w s1 current last' =
           (Some (if last' \<noteq> root up then errOptimisticLockFailedRoot
                  else errOptimisticLockFailedTables),
            w3, s1\<lparr>tables := ts, upstream := up\<rparr>)"
  using assms
  by (auto simp: updateManifest_write_def handleOptimisticLockFailure_def newContents_def)

lemma updateManifest_write_won:
  assumes noconj: "\<not> c_ConjoinRequired D (tables s1)"
      and tospecs: "ts_ToSpecs D (tables s1) w = ((sp, None), w1)"
      and cas: "mm_Update D (lock (upstream s1)) (newContents D s1 current sp) w1 = ((up, None), w2)"
      and won: "lock up = generateLockHash D current sp"
      and flatten: "ts_Flatten D (tables s1) w2 = ((ts, ferr), w3)"
  shows "updateManifest_write D w s1 current last' =
           (None, w3, s1\<lparr>upstream := newContents D s1 current sp, tables := ts\<rparr>)"
  using assms
  by (auto simp: updateManifest_write_def newContents_def)

text \<open>C2: when the manifest \<^verbatim>\<open>Update\<close> returns contents whose lock differs from the newly
  generated lock, the store installs the returned contents as its upstream and rebases its
  table set onto their specs. Then, if the returned root differs from \<^verbatim>\<open>last\<close>,
  \<^verbatim>\<open>updateManifest\<close> answers \<^verbatim>\<open>errOptimisticLockFailedRoot\<close>, the loop of \<^verbatim>\<open>Commit\<close> ends with
  \<^verbatim>\<open>(false, nil)\<close> and so does \<^verbatim>\<open>Commit\<close> (the update lock being released without error);
  otherwise \<^verbatim>\<open>updateManifest\<close> answers \<^verbatim>\<open>errOptimisticLockFailedTables\<close> and the loop runs
  again from the reconciled store, its result being the result of that retry.\<close>

theorem updateManifest_lost_cas:
  assumes root: "root (upstream s) = last'"
      and notdoomed: "\<not> snd (mm_updateWillFail D (lock (upstream s)) w)"
      and s1: "s1 = snd (updateManifest_flush s)"
      and noconj: "\<not> c_ConjoinRequired D (tables s1)"
      and tospecs: "ts_ToSpecs D (tables s1) w = ((sp, None), w1)"
      and cas: "mm_Update D (lock (upstream s1)) (newContents D s1 current sp) w1 = ((up, None), w2)"
      and lost: "lock up \<noteq> generateLockHash D current sp"
      and rebase: "ts_Rebase D (tables s1) (specs up) w2 = ((ts, None), w3)"
      and s2: "s2 = s1\<lparr>tables := ts, upstream := up\<rparr>"
  shows "updateManifest D w s current last' =
           (Some (if last' \<noteq> root up then errOptimisticLockFailedRoot
                  else errOptimisticLockFailedTables), w3, s2) \<and>
         Commit_loop D w s current last' =
           (if last' \<noteq> root up then Some ((False, None), w3, s2)
            else Commit_loop D w3 s2 current last') \<and>
         (\<forall>w0 s0. (anyPossiblyNovelChunks s0 \<or> current \<noteq> last') \<and> mm_LockForUpdate D w0 = w \<and>
                  snd (Commit_preflush s0) = s \<and> fst (mm_UnlockForUpdate D w3) = None \<longrightarrow>
            Commit D w0 s0 current last' =
              (if last' \<noteq> root up
               then Some ((False, None), snd (mm_UnlockForUpdate D w3), s2)
               else map_option (Commit_unlock D) (Commit_loop D w3 s2 current last')))"
proof -
  have u: "updateManifest D w s current last' =
           (Some (if last' \<noteq> root up then errOptimisticLockFailedRoot
                  else errOptimisticLockFailedTables), w3, s2)"
    unfolding updateManifest_reaches_write[OF root notdoomed] s2
    using noconj tospecs cas lost rebase unfolding s1
    by (rule updateManifest_write_lost)
  have l: "Commit_loop D w s current last' =
           (if last' \<noteq> root up then Some ((False, None), w3, s2)
            else Commit_loop D w3 s2 current last')"
    by (subst Commit_loop.simps) (simp add: u)
  have "Commit D w0 s0 current last' =
              (if last' \<noteq> root up
               then Some ((False, None), snd (mm_UnlockForUpdate D w3), s2)
               else map_option (Commit_unlock D) (Commit_loop D w3 s2 current last'))"
    if "anyPossiblyNovelChunks s0 \<or> current \<noteq> last'" and "mm_LockForUpdate D w0 = w"
      and "snd (Commit_preflush s0) = s" and "fst (mm_UnlockForUpdate D w3) = None"
    for w0 s0
    using that l by (auto simp: Commit_slow_path Commit_unlock_def split: prod.splits)
  with u l show ?thesis
    by blast
qed

text \<open>C9: when the manifest \<^verbatim>\<open>Update\<close> returns contents whose lock equals the newly generated
  lock, \<^verbatim>\<open>updateManifest\<close> returns \<^verbatim>\<open>nil\<close> whatever \<^verbatim>\<open>Flatten\<close> returns, error included; the
  loop of \<^verbatim>\<open>Commit\<close> ends with \<^verbatim>\<open>(true, nil)\<close> and so does \<^verbatim>\<open>Commit\<close> (the update lock being
  released without error). The error of \<^verbatim>\<open>Flatten\<close> is in no result; the table set it
  returned next to the error is the store's table set.\<close>

theorem updateManifest_discards_Flatten_error:
  assumes root: "root (upstream s) = last'"
      and notdoomed: "\<not> snd (mm_updateWillFail D (lock (upstream s)) w)"
      and s1: "s1 = snd (updateManifest_flush s)"
      and noconj: "\<not> c_ConjoinRequired D (tables s1)"
      and tospecs: "ts_ToSpecs D (tables s1) w = ((sp, None), w1)"
      and cas: "mm_Update D (lock (upstream s1)) (newContents D s1 current sp) w1 = ((up, None), w2)"
      and won: "lock up = generateLockHash D current sp"
      and flatten: "ts_Flatten D (tables s1) w2 = ((ts, ferr), w3)"
      and s2: "s2 = s1\<lparr>upstream := newContents D s1 current sp, tables := ts\<rparr>"
  shows "updateManifest D w s current last' = (None, w3, s2) \<and>
         Commit_loop D w s current last' = Some ((True, None), w3, s2) \<and>
         (\<forall>w0 s0. (anyPossiblyNovelChunks s0 \<or> current \<noteq> last') \<and> mm_LockForUpdate D w0 = w \<and>
                  snd (Commit_preflush s0) = s \<and> fst (mm_UnlockForUpdate D w3) = None \<longrightarrow>
            Commit D w0 s0 current last' =
              Some ((True, None), snd (mm_UnlockForUpdate D w3), s2))"
proof -
  have u: "updateManifest D w s current last' = (None, w3, s2)"
    unfolding updateManifest_reaches_write[OF root notdoomed] s2
    using noconj tospecs cas won flatten unfolding s1
    by (rule updateManifest_write_won)
  have l: "Commit_loop D w s current last' = Some ((True, None), w3, s2)"
    by (subst Commit_loop.simps) (simp add: u)
  have "Commit D w0 s0 current last' = Some ((True, None), snd (mm_UnlockForUpdate D w3), s2)"
    if "anyPossiblyNovelChunks s0 \<or> current \<noteq> last'" and "mm_LockForUpdate D w0 = w"
      and "snd (Commit_preflush s0) = s" and "fst (mm_UnlockForUpdate D w3) = None"
    for w0 s0
    using that l by (auto simp: Commit_slow_path Commit_unlock_def split: prod.splits)
  with u l show ?thesis
    by blast
qed

subsection \<open>The commit protocol in the concrete environment\<close>

lemmas env_defs = refEnv_def flattenFailsEnv_def failingFlatten_def refFetch_def refUpdate_def
  refUpdateWillFail_def refLockForUpdate_def refUnlockForUpdate_def refToSpecs_def
  refRebase_def refFlatten_def refLockHash_def cs_spec_def noContents_def

lemmas commit_defs = manifestR1_def manifestR1b_def manifestR2_def worldAt_def idleStore_def
  busyStore_def nineStore_def nineMemTable_def noTables_def fullMemTable_def

lemmas facade_defs = Rebase_def Root_def anyPossiblyNovelChunks_def ts_Novel_def
  Commit_preflush_def updateManifest_flush_def mt_count_def distinctCount_def
  preflushChunkCount_def ts_Prepend_def newContents_def

theorem Commit_fails_on_mismatch_counterexample:
  "root (upstream (idleStore manifestR2)) \<noteq> 1 \<and>
   Commit refEnv (worldAt manifestR2) (idleStore manifestR2) 1 1 =
     Some ((True, None), (worldAt manifestR2)\<lparr>cached := Some manifestR2\<rparr>, idleStore manifestR2)"
  by (simp add: Commit_def facade_defs env_defs commit_defs)

theorem Root_after_Commit_counterexample:
  "Commit refEnv (worldAt manifestR2) (idleStore manifestR1) 1 1 =
     Some ((True, None), (worldAt manifestR2)\<lparr>cached := Some manifestR2\<rparr>, idleStore manifestR2) \<and>
   Root (idleStore manifestR2) = (2, None) \<and> (2 :: hash) \<noteq> 1"
  by (simp add: Commit_def facade_defs env_defs commit_defs)

theorem Commit_noop_rebases_witness:
  "mt twoTableStore = None \<and> ts_Novel (tables twoTableStore) = 0 \<and>
   mm_Fetch refEnv (worldAt manifestR1T) =
     ((True, manifestR1T, None), (worldAt manifestR1T)\<lparr>cached := Some manifestR1T\<rparr>) \<and>
   ts_Rebase refEnv (tables twoTableStore) (specs manifestR1T)
       ((worldAt manifestR1T)\<lparr>cached := Some manifestR1T\<rparr>) =
     ((tables oneTableStore, None), (worldAt manifestR1T)\<lparr>cached := Some manifestR1T\<rparr>) \<and>
   Commit refEnv (worldAt manifestR1T) twoTableStore 2 2 =
     Some ((True, None), (worldAt manifestR1T)\<lparr>cached := Some manifestR1T\<rparr>, oneTableStore) \<and>
   upstream oneTableStore = manifestR1T \<and>
   ts_upstream (tables oneTableStore) = [MmapTableReader tableA] \<and>
   persisted ((worldAt manifestR1T)\<lparr>cached := Some manifestR1T\<rparr>) = persisted (worldAt manifestR1T)"
proof -
  have a: "mt twoTableStore = None" "ts_Novel (tables twoTableStore) = 0"
    by (simp_all add: twoTableStore_def ts_Novel_def)
  have f: "mm_Fetch refEnv (worldAt manifestR1T) =
     ((True, manifestR1T, None), (worldAt manifestR1T)\<lparr>cached := Some manifestR1T\<rparr>)"
    by (simp add: env_defs worldAt_def)
  have r: "ts_Rebase refEnv (tables twoTableStore) (specs manifestR1T)
       ((worldAt manifestR1T)\<lparr>cached := Some manifestR1T\<rparr>) =
     ((tables oneTableStore, None), (worldAt manifestR1T)\<lparr>cached := Some manifestR1T\<rparr>)"
    by (simp add: env_defs twoTableStore_def oneTableStore_def manifestR1T_def tableA_def
          tableB_def)
  then have r': "True \<longrightarrow> ts_Rebase refEnv (tables twoTableStore) (specs manifestR1T)
       ((worldAt manifestR1T)\<lparr>cached := Some manifestR1T\<rparr>) =
     ((tables oneTableStore, None), (worldAt manifestR1T)\<lparr>cached := Some manifestR1T\<rparr>)"
    by simp
  have u: "twoTableStore\<lparr>tables := tables oneTableStore, upstream := manifestR1T\<rparr> = oneTableStore"
    by (simp add: twoTableStore_def oneTableStore_def)
  from Commit_noop_rebases[OF a refl f r', of 2] a f r show ?thesis
    by (simp add: u) (simp add: oneTableStore_def worldAt_def)
qed

theorem Commit_last_root_mismatch_witness:
  "root (upstream (busyStore manifestR2)) \<noteq> 1 \<and>
   anyPossiblyNovelChunks (busyStore manifestR2) \<and>
   fst (mm_UnlockForUpdate refEnv (mm_LockForUpdate refEnv (worldAt manifestR2))) = None \<and>
   Commit refEnv (worldAt manifestR2) (busyStore manifestR2) 3 1 =
     Some ((False, None), worldAt manifestR2, busyStore manifestR2)"
proof -
  have a: "root (upstream (busyStore manifestR2)) \<noteq> 1"
    by (simp add: commit_defs)
  have b: "anyPossiblyNovelChunks (busyStore manifestR2) \<or> (3 :: hash) \<noteq> 1"
    by (simp add: facade_defs commit_defs)
  have c: "fst (mm_UnlockForUpdate refEnv (mm_LockForUpdate refEnv (worldAt manifestR2))) = None"
    by (simp add: env_defs commit_defs)
  have d: "snd (mm_UnlockForUpdate refEnv (mm_LockForUpdate refEnv (worldAt manifestR2))) = worldAt manifestR2"
    by (simp add: env_defs commit_defs)
  have e: "snd (Commit_preflush (busyStore manifestR2)) = busyStore manifestR2"
    by (simp add: facade_defs commit_defs)
  have f: "anyPossiblyNovelChunks (busyStore manifestR2)"
    by (simp add: facade_defs commit_defs)
  from Commit_last_root_mismatch[OF a b c] a c d e f show ?thesis
    by simp
qed

lemmas commit_defs2 = sealedTables_def sealedStore_def manifestR5_def flattenedTables_def
  committedStore_def lockedWorld_def

lemmas update_defs = updateManifest_def updateManifest_write_def handleOptimisticLockFailure_def

lemma locked: "mm_LockForUpdate refEnv (worldAt c) = lockedWorld c None"
  by (simp add: env_defs commit_defs commit_defs2)

lemma preflush_busy: "Commit_preflush (busyStore c) = (None, busyStore c)"
  by (simp add: facade_defs commit_defs)

lemma flush_busy: "updateManifest_flush (busyStore c) = (None, sealedStore c)"
  by (simp add: facade_defs commit_defs commit_defs2)

lemma flush_sealed: "updateManifest_flush (sealedStore c) = (None, sealedStore c)"
  by (simp add: facade_defs commit_defs commit_defs2)

lemma tospecs_sealed: "ts_ToSpecs refEnv (tables (sealedStore c)) w = (([(0, 1)], None), w)"
  by (simp add: facade_defs env_defs commit_defs commit_defs2)

lemma new_sealed: "newContents refEnv (sealedStore manifestR1) 5 [(0, 1)] = manifestR5"
  by (simp add: facade_defs env_defs commit_defs commit_defs2)

lemma new_sealed_b: "newContents refEnv (sealedStore manifestR1b) 5 [(0, 1)] = manifestR5"
  by (simp add: facade_defs env_defs commit_defs commit_defs2)

lemma upstream_busy: "upstream (busyStore c) = c" "upstream (sealedStore c) = c"
  by (simp_all add: commit_defs commit_defs2)

lemma manifest_fields:
  "root manifestR1 = 1" "root manifestR1b = 1" "root manifestR2 = 2" "root manifestR5 = 5"
  "lock manifestR1 = 11" "lock manifestR1b = 44" "lock manifestR2 = 22" "lock manifestR5 = 5002"
  "specs manifestR1 = []" "specs manifestR1b = []" "specs manifestR2 = []"
  by (simp_all add: commit_defs commit_defs2)

lemma not_doomed: "\<not> snd (mm_updateWillFail refEnv l (lockedWorld c None))"
  by (simp add: env_defs commit_defs2)

lemma not_doomed_cached: "\<not> snd (mm_updateWillFail refEnv (lock c) (lockedWorld c (Some c)))"
  by (simp add: env_defs commit_defs2)

lemma no_conjoin: "\<not> c_ConjoinRequired refEnv ts" "\<not> c_ConjoinRequired flattenFailsEnv ts"
  by (simp_all add: env_defs)

lemma lock_hash_5: "generateLockHash refEnv 5 [(0, 1)] = 5002"
  "generateLockHash flattenFailsEnv 5 [(0, 1)] = 5002"
  by (simp_all add: env_defs)

lemma update_wins:
  "lock c = l \<Longrightarrow> mm_Update refEnv l new (lockedWorld c k) = ((new, None), lockedWorld new (Some new))"
  by (simp add: env_defs commit_defs2)

lemma update_loses:
  "lock c \<noteq> l \<Longrightarrow> mm_Update refEnv l new (lockedWorld c k) = ((c, None), lockedWorld c (Some c))"
  by (simp add: env_defs commit_defs2)

lemma flatten_sealed: "ts_Flatten refEnv (tables (sealedStore c)) w = ((flattenedTables, None), w)"
  by (simp add: env_defs commit_defs commit_defs2)

lemma rebase_sealed: "ts_Rebase refEnv (tables (sealedStore c)) [] w = ((sealedTables, None), w)"
  by (simp add: env_defs commit_defs commit_defs2)

lemma unlock_locked: "mm_UnlockForUpdate refEnv (lockedWorld c k) =
    (None, \<lparr>persisted = Some c, cached = k, updating = False\<rparr>)"
  by (simp add: env_defs commit_defs2)

lemma sealed_updates:
  "sealedStore c\<lparr>upstream := manifestR5, tables := flattenedTables\<rparr> = committedStore"
  "sealedStore c\<lparr>tables := sealedTables, upstream := c'\<rparr> = sealedStore c'"
  by (simp_all add: commit_defs2)

lemma retry_commits:
  "Commit_loop refEnv (lockedWorld manifestR1b (Some manifestR1b)) (sealedStore manifestR1b) 5 1 =
     Some ((True, None), lockedWorld manifestR5 (Some manifestR5), committedStore)"
proof -
  have rt: "root (upstream (sealedStore manifestR1b)) = 1"
    by (simp add: upstream_busy manifest_fields)
  have nd: "\<not> snd (mm_updateWillFail refEnv (lock (upstream (sealedStore manifestR1b)))
                  (lockedWorld manifestR1b (Some manifestR1b)))"
    by (simp add: upstream_busy not_doomed_cached)
  have "updateManifest_write refEnv (lockedWorld manifestR1b (Some manifestR1b))
          (sealedStore manifestR1b) 5 1 =
      (None, lockedWorld manifestR5 (Some manifestR5),
       sealedStore manifestR1b\<lparr>upstream := newContents refEnv (sealedStore manifestR1b) 5 [(0, 1)],
                                tables := flattenedTables\<rparr>)"
    by (rule updateManifest_write_won[OF no_conjoin(1) tospecs_sealed _ _ flatten_sealed])
       (simp add: upstream_busy manifest_fields new_sealed_b update_wins lock_hash_5)+
  then have u: "updateManifest refEnv (lockedWorld manifestR1b (Some manifestR1b))
          (sealedStore manifestR1b) 5 1 =
      (None, lockedWorld manifestR5 (Some manifestR5), committedStore)"
    by (simp add: updateManifest_reaches_write[OF rt nd] flush_sealed new_sealed_b sealed_updates)
  show ?thesis
    by (subst Commit_loop.simps) (simp add: u)
qed

theorem Commit_success_sets_root_witness:
  "anyPossiblyNovelChunks (busyStore manifestR1) \<and>
   Commit refEnv (worldAt manifestR1) (busyStore manifestR1) 5 1 =
     Some ((True, None),
           \<lparr>persisted = Some manifestR5, cached = Some manifestR5, updating = False\<rparr>,
           committedStore) \<and>
   Root committedStore = (5, None)"
proof -
  have a: "anyPossiblyNovelChunks (busyStore manifestR1)"
    by (simp add: facade_defs commit_defs)
  then have b: "anyPossiblyNovelChunks (busyStore manifestR1) \<or> (5 :: hash) \<noteq> 1"
    by simp
  have "updateManifest_write refEnv (lockedWorld manifestR1 None) (sealedStore manifestR1) 5 1 =
      (None, lockedWorld manifestR5 (Some manifestR5),
       sealedStore manifestR1\<lparr>upstream := newContents refEnv (sealedStore manifestR1) 5 [(0, 1)],
                               tables := flattenedTables\<rparr>)"
    by (rule updateManifest_write_won[OF no_conjoin(1) tospecs_sealed _ _ flatten_sealed])
       (simp add: upstream_busy manifest_fields new_sealed update_wins lock_hash_5)+
  then have u: "updateManifest refEnv (lockedWorld manifestR1 None) (busyStore manifestR1) 5 1 =
      (None, lockedWorld manifestR5 (Some manifestR5), committedStore)"
    by (simp add: updateManifest_reaches_write not_doomed upstream_busy manifest_fields
          flush_busy new_sealed sealed_updates)
  have l: "Commit_loop refEnv (lockedWorld manifestR1 None) (busyStore manifestR1) 5 1 =
      Some ((True, None), lockedWorld manifestR5 (Some manifestR5), committedStore)"
    by (subst Commit_loop.simps) (simp add: u)
  have c: "Commit refEnv (worldAt manifestR1) (busyStore manifestR1) 5 1 =
     Some ((True, None),
           \<lparr>persisted = Some manifestR5, cached = Some manifestR5, updating = False\<rparr>,
           committedStore)"
    by (simp add: Commit_slow_path[OF b] locked preflush_busy l Commit_unlock_def unlock_locked)
  from Commit_success_sets_root[OF b c] a c show ?thesis
    by simp
qed

lemma flattenFailsEnv_fields:
  "mm_Update flattenFailsEnv = mm_Update refEnv"
  "mm_updateWillFail flattenFailsEnv = mm_updateWillFail refEnv"
  "mm_LockForUpdate flattenFailsEnv = mm_LockForUpdate refEnv"
  "mm_UnlockForUpdate flattenFailsEnv = mm_UnlockForUpdate refEnv"
  "ts_ToSpecs flattenFailsEnv = ts_ToSpecs refEnv"
  "generateLockHash flattenFailsEnv = generateLockHash refEnv"
  "ts_Flatten flattenFailsEnv = failingFlatten"
  by (simp_all add: flattenFailsEnv_def)

lemma newContents_flattenFailsEnv: "newContents flattenFailsEnv = newContents refEnv"
  by (simp add: newContents_def flattenFailsEnv_fields fun_eq_iff)

lemma novel_busy: "anyPossiblyNovelChunks (busyStore c)"
  by (simp add: facade_defs commit_defs)

theorem updateManifest_lost_cas_witness:
  "mm_Update refEnv 11 manifestR5 (lockedWorld manifestR2 None) =
     ((manifestR2, None), lockedWorld manifestR2 (Some manifestR2)) \<and>
   lock manifestR2 \<noteq> generateLockHash refEnv 5 [(0, 1)] \<and>
   updateManifest refEnv (lockedWorld manifestR2 None) (busyStore manifestR1) 5 1 =
     (Some errOptimisticLockFailedRoot, lockedWorld manifestR2 (Some manifestR2),
      sealedStore manifestR2) \<and>
   Commit refEnv (worldAt manifestR2) (busyStore manifestR1) 5 1 =
     Some ((False, None),
           \<lparr>persisted = Some manifestR2, cached = Some manifestR2, updating = False\<rparr>,
           sealedStore manifestR2) \<and>
   updateManifest refEnv (lockedWorld manifestR1b None) (busyStore manifestR1) 5 1 =
     (Some errOptimisticLockFailedTables, lockedWorld manifestR1b (Some manifestR1b),
      sealedStore manifestR1b) \<and>
   Commit_loop refEnv (lockedWorld manifestR1b None) (busyStore manifestR1) 5 1 =
     Commit_loop refEnv (lockedWorld manifestR1b (Some manifestR1b)) (sealedStore manifestR1b) 5 1 \<and>
   Commit refEnv (worldAt manifestR1b) (busyStore manifestR1) 5 1 =
     Some ((True, None),
           \<lparr>persisted = Some manifestR5, cached = Some manifestR5, updating = False\<rparr>,
           committedStore)"
proof -
  have cas2: "mm_Update refEnv (lock (upstream (sealedStore manifestR1)))
                (newContents refEnv (sealedStore manifestR1) 5 [(0, 1)]) (lockedWorld manifestR2 None) =
     ((manifestR2, None), lockedWorld manifestR2 (Some manifestR2))"
    by (simp add: upstream_busy manifest_fields update_loses)
  have lost2: "lock manifestR2 \<noteq> generateLockHash refEnv 5 [(0, 1)]"
    by (simp add: manifest_fields lock_hash_5)
  have reb2: "ts_Rebase refEnv (tables (sealedStore manifestR1)) (specs manifestR2)
                (lockedWorld manifestR2 (Some manifestR2)) =
     ((sealedTables, None), lockedWorld manifestR2 (Some manifestR2))"
    by (simp add: manifest_fields rebase_sealed)
  have s1: "sealedStore manifestR1 = snd (updateManifest_flush (busyStore manifestR1))"
    by (simp add: flush_busy)
  have rt: "root (upstream (busyStore manifestR1)) = 1"
    by (simp add: upstream_busy manifest_fields)
  note moved = updateManifest_lost_cas[OF rt not_doomed s1 no_conjoin(1) tospecs_sealed cas2 lost2 reb2
      sealed_updates(2)[symmetric]]
  have cas1: "mm_Update refEnv (lock (upstream (sealedStore manifestR1)))
                (newContents refEnv (sealedStore manifestR1) 5 [(0, 1)]) (lockedWorld manifestR1b None) =
     ((manifestR1b, None), lockedWorld manifestR1b (Some manifestR1b))"
    by (simp add: upstream_busy manifest_fields update_loses)
  have lost1: "lock manifestR1b \<noteq> generateLockHash refEnv 5 [(0, 1)]"
    by (simp add: manifest_fields lock_hash_5)
  have reb1: "ts_Rebase refEnv (tables (sealedStore manifestR1)) (specs manifestR1b)
                (lockedWorld manifestR1b (Some manifestR1b)) =
     ((sealedTables, None), lockedWorld manifestR1b (Some manifestR1b))"
    by (simp add: manifest_fields rebase_sealed)
  note tabs = updateManifest_lost_cas[OF rt not_doomed s1 no_conjoin(1) tospecs_sealed cas1 lost1 reb1
      sealed_updates(2)[symmetric]]
  have c: "Commit refEnv (worldAt manifestR2) (busyStore manifestR1) 5 1 =
     Some ((False, None),
           \<lparr>persisted = Some manifestR2, cached = Some manifestR2, updating = False\<rparr>,
           sealedStore manifestR2)"
    using moved[THEN conjunct2, THEN conjunct2, rule_format, of "busyStore manifestR1" "worldAt manifestR2"]
    by (simp add: novel_busy locked preflush_busy unlock_locked manifest_fields)
  have l: "Commit_loop refEnv (lockedWorld manifestR1b None) (busyStore manifestR1) 5 1 =
      Some ((True, None), lockedWorld manifestR5 (Some manifestR5), committedStore)"
    using tabs[THEN conjunct2, THEN conjunct1] by (simp add: manifest_fields retry_commits)
  have b: "anyPossiblyNovelChunks (busyStore manifestR1) \<or> (5 :: hash) \<noteq> 1"
    by (simp add: novel_busy)
  have c': "Commit refEnv (worldAt manifestR1b) (busyStore manifestR1) 5 1 =
     Some ((True, None),
           \<lparr>persisted = Some manifestR5, cached = Some manifestR5, updating = False\<rparr>,
           committedStore)"
    by (simp add: Commit_slow_path[OF b] locked preflush_busy l Commit_unlock_def unlock_locked)
  from moved tabs c c' cas2 lost2 show ?thesis
    by (simp add: manifest_fields upstream_busy new_sealed)
qed


theorem updateManifest_discards_Flatten_error_witness:
  "mm_Update flattenFailsEnv 11 manifestR5 (lockedWorld manifestR1 None) =
     ((manifestR5, None), lockedWorld manifestR5 (Some manifestR5)) \<and>
   lock manifestR5 = generateLockHash flattenFailsEnv 5 [(0, 1)] \<and>
   ts_Flatten flattenFailsEnv sealedTables (lockedWorld manifestR5 (Some manifestR5)) =
     ((noTables, Some (errorsNew ''flatten failed'')), lockedWorld manifestR5 (Some manifestR5)) \<and>
   updateManifest flattenFailsEnv (lockedWorld manifestR1 None) (busyStore manifestR1) 5 1 =
     (None, lockedWorld manifestR5 (Some manifestR5),
      \<lparr>mt = None, tables = noTables, upstream = manifestR5, mtSize = 4, putCount = 1\<rparr>) \<and>
   Commit flattenFailsEnv (worldAt manifestR1) (busyStore manifestR1) 5 1 =
     Some ((True, None),
           \<lparr>persisted = Some manifestR5, cached = Some manifestR5, updating = False\<rparr>,
           \<lparr>mt = None, tables = noTables, upstream = manifestR5, mtSize = 4, putCount = 1\<rparr>)"
proof -
  let ?s2 = "\<lparr>mt = None, tables = noTables, upstream = manifestR5, mtSize = 4, putCount = 1\<rparr>"
  have rt: "root (upstream (busyStore manifestR1)) = 1"
    by (simp add: upstream_busy manifest_fields)
  have nd: "\<not> snd (mm_updateWillFail flattenFailsEnv (lock (upstream (busyStore manifestR1)))
                  (lockedWorld manifestR1 None))"
    by (simp add: flattenFailsEnv_fields not_doomed)
  have s1: "sealedStore manifestR1 = snd (updateManifest_flush (busyStore manifestR1))"
    by (simp add: flush_busy)
  have sp: "ts_ToSpecs flattenFailsEnv (tables (sealedStore manifestR1)) (lockedWorld manifestR1 None) =
      (([(0, 1)], None), lockedWorld manifestR1 None)"
    by (simp add: flattenFailsEnv_fields tospecs_sealed)
  have cas: "mm_Update flattenFailsEnv (lock (upstream (sealedStore manifestR1)))
                (newContents flattenFailsEnv (sealedStore manifestR1) 5 [(0, 1)])
                (lockedWorld manifestR1 None) =
     ((manifestR5, None), lockedWorld manifestR5 (Some manifestR5))"
    by (simp add: flattenFailsEnv_fields newContents_flattenFailsEnv upstream_busy
          manifest_fields new_sealed update_wins)
  have won: "lock manifestR5 = generateLockHash flattenFailsEnv 5 [(0, 1)]"
    by (simp add: manifest_fields lock_hash_5)
  have fl: "ts_Flatten flattenFailsEnv (tables (sealedStore manifestR1))
              (lockedWorld manifestR5 (Some manifestR5)) =
     ((noTables, Some (errorsNew ''flatten failed'')), lockedWorld manifestR5 (Some manifestR5))"
    by (simp add: flattenFailsEnv_fields failingFlatten_def)
  have s2: "?s2 = sealedStore manifestR1\<lparr>upstream := newContents flattenFailsEnv (sealedStore manifestR1) 5 [(0, 1)],
                                        tables := noTables\<rparr>"
    by (simp add: newContents_flattenFailsEnv new_sealed) (simp add: sealedStore_def)
  note inst = updateManifest_discards_Flatten_error[OF rt nd s1 no_conjoin(2) sp cas won fl s2]
  have c: "Commit flattenFailsEnv (worldAt manifestR1) (busyStore manifestR1) 5 1 =
     Some ((True, None),
           \<lparr>persisted = Some manifestR5, cached = Some manifestR5, updating = False\<rparr>, ?s2)"
    using inst[THEN conjunct2, THEN conjunct2, rule_format, of "busyStore manifestR1" "worldAt manifestR1"]
    by (simp add: novel_busy flattenFailsEnv_fields locked preflush_busy unlock_locked)
  have tb: "tables (sealedStore manifestR1) = sealedTables"
    by (simp add: sealedStore_def)
  from inst c cas won fl show ?thesis
    by (simp add: upstream_busy manifest_fields newContents_flattenFailsEnv new_sealed tb)
qed

theorem Commit_preflush_threshold_witness:
  "mt nineStore = Some nineMemTable \<and> distinctCount nineMemTable = 9 \<and>
   Commit_preflush nineStore =
     (None, nineStore\<lparr>tables := ts_Prepend (tables nineStore) nineMemTable, mt := None\<rparr>) \<and>
   mt (busyStore manifestR1) = Some fullMemTable \<and> distinctCount fullMemTable = 1 \<and>
   Commit_preflush (busyStore manifestR1) = (None, busyStore manifestR1) \<and>
   updateManifest_flush (busyStore manifestR1) =
     (None, (busyStore manifestR1)\<lparr>tables := ts_Prepend (tables (busyStore manifestR1)) fullMemTable,
                                    mt := None\<rparr>)"
proof -
  have a: "mt nineStore = Some nineMemTable" "mt (busyStore manifestR1) = Some fullMemTable"
    by (simp_all add: commit_defs)
  have n: "distinctCount nineMemTable = 9" "distinctCount fullMemTable = 1"
    by (simp_all add: distinctCount_def commit_defs)
  then have b: "distinctCount nineMemTable < 2 ^ 32" "distinctCount fullMemTable < 2 ^ 32"
    by simp_all
  from Commit_preflush_threshold[OF a(1) b(1), where D = refEnv and w = "worldAt manifestR1"
         and current = 1 and last' = 1 and ?w1.0 = "worldAt manifestR1"]
    Commit_preflush_threshold[OF a(2) b(2), where D = refEnv and w = "worldAt manifestR1"
         and current = 1 and last' = 1 and ?w1.0 = "worldAt manifestR1"] a n
  show ?thesis
    by simp
qed

subsection \<open>The chunk locations\<close>

lemmas loc_defs = GetChunkLocations_def probeSource_def toGetRecords_def findOffsets_def
  tr_indexOf_def lookupOrdinal_def nth_opt_def Prefix_def Suffix_def















text \<open>The order of the kinds matters to the code. On a table set put together by hand, with
  an adapter before a memory-mapped reader of a table that holds the same hash, the
  adapter case deletes the hash from \<^verbatim>\<open>hashes\<close> and leaves the get records \<^verbatim>\<open>gr\<close> as they
  were, so the memory-mapped reader is asked for the hash again and the map assigns it to
  both tables. The constructors of the store give each store one persister
  (\<^verbatim>\<open>newNomsBlockStore\<close>), and a persister opens tables of one kind, so the tables of a
  store are not of that shape.\<close>

lemma GetChunkLocations_mixed_sources:
  "GetChunkLocations mixedStore [3] =
     Returns (Some [100 \<mapsto> [3 \<mapsto> \<lparr>Offset = 0, Length = 3\<rparr>],
                    102 \<mapsto> [3 \<mapsto> \<lparr>Offset = 0, Length = 3\<rparr>]], None, [])"
  by (simp add: loc_defs mixedStore_def tableA_def tableA2_def)

lemma two_tables_not_at_most_one:
  "\<not> at_most_one_table [100 \<mapsto> [3 \<mapsto> \<lparr>Offset = 0, Length = 3\<rparr>],
                          102 \<mapsto> [3 \<mapsto> \<lparr>Offset = 0, Length = 3\<rparr>]]"
proof
  assume "at_most_one_table [100 \<mapsto> [3 \<mapsto> \<lparr>Offset = 0, Length = 3\<rparr>],
                             102 \<mapsto> [3 \<mapsto> \<lparr>Offset = 0, Length = 3\<rparr>]]"
  from this[unfolded at_most_one_table_def, rule_format,
      of 100 "[3 \<mapsto> \<lparr>Offset = 0, Length = 3\<rparr>]" 102 "[3 \<mapsto> \<lparr>Offset = 0, Length = 3\<rparr>]" 3]
  have "(100 :: hash) = 102"
    by simp
  then show False
    by simp
qed



end
